theory Spec2Isabelle
  imports Complex_Main "HOL-Library.AList"
begin

section \<open>JavaScript values\<close>

text \<open>
  The server is JavaScript, so every value the handlers inspect carries its run-time type.
  A number is an IEEE double: a finite double is written as the rational it denotes, and
  the three special values are kept apart, since \<open>Math.min\<close>, \<open>Math.max\<close> and
  \<open>Math.round\<close> treat them differently (the two zeros are not distinguished).
  A string is a list of code units; \<^typ>\<open>char\<close> has eight bits, so the strings of
  the model are those whose code units are below 256.  An object is the list of its own
  properties, looked up by name.
\<close>

datatype jsnum = Fin rat | PosInf | NegInf | NaN

datatype jsval =
    JUndefined
  | JNull
  | JBool bool
  | JNum jsnum
  | JStr string
  | JArr "jsval list"
  | JObj "(string \<times> jsval) list"

type_synonym jsobj = "(string \<times> jsval) list"

text \<open>\<open>!v\<close> is true of exactly these values: the model's \<open>truthy\<close> is its negation.\<close>

fun truthy :: "jsval \<Rightarrow> bool" where
  "truthy JUndefined = False"
| "truthy JNull = False"
| "truthy (JBool b) = b"
| "truthy (JNum (Fin x)) = (x \<noteq> 0)"
| "truthy (JNum NaN) = False"
| "truthy (JNum n) = True"
| "truthy (JStr s) = (s \<noteq> [])"
| "truthy (JArr xs) = True"
| "truthy (JObj kvs) = True"

fun is_string :: "jsval \<Rightarrow> bool" where
  "is_string (JStr s) = True"
| "is_string v = False"

fun is_number :: "jsval \<Rightarrow> bool" where
  "is_number (JNum n) = True"
| "is_number v = False"

fun isArray :: "jsval \<Rightarrow> bool" where
  "isArray (JArr xs) = True"
| "isArray v = False"

text \<open>\<open>a || b\<close>\<close>

definition or_else :: "jsval \<Rightarrow> jsval \<Rightarrow> jsval" where
  "or_else a b = (if truthy a then a else b)"

text \<open>Reading and writing a property of an object.\<close>

definition get_field :: "jsobj \<Rightarrow> string \<Rightarrow> jsval" where
  "get_field kvs k = (case map_of kvs k of None \<Rightarrow> JUndefined | Some v \<Rightarrow> v)"

definition set_field :: "string \<Rightarrow> jsval \<Rightarrow> jsobj \<Rightarrow> jsobj" where
  "set_field k v kvs = AList.update k v kvs"

section \<open>Strings\<close>

text \<open>
  \<open>String.prototype.startsWith\<close>, \<open>includes\<close> (here \<open>js_includes\<close>) and
  \<open>trim\<close>.  The white space that
  \<open>trim\<close> and the regular expression class \<open>\s\<close> remove is, among the code units
  below 256: tab, line feed, vertical tab, form feed, carriage return, space and the
  no-break space.
\<close>

fun startsWith :: "string \<Rightarrow> string \<Rightarrow> bool" where
  "startsWith s [] = True"
| "startsWith [] (p # ps) = False"
| "startsWith (c # cs) (p # ps) = (c = p \<and> startsWith cs ps)"

fun js_includes :: "string \<Rightarrow> string \<Rightarrow> bool" where
  "js_includes [] n = (n = [])"
| "js_includes (c # cs) n = (startsWith (c # cs) n \<or> js_includes cs n)"

definition is_space :: "char \<Rightarrow> bool" where
  "is_space c = (c \<in> set [CHR 0x09, CHR 0x0A, CHR 0x0B, CHR 0x0C, CHR 0x0D, CHR 0x20, CHR 0xA0])"

definition trim :: "string \<Rightarrow> string" where
  "trim s = rev (dropWhile is_space (rev (dropWhile is_space s)))"

section \<open>The language run-time\<close>

text \<open>
  Five operations of the language run-time are not part of the program and are taken as
  parameters: \<open>str2num\<close> is the conversion of a string to a number (\<open>NaN\<close> for a
  string that is not a numeric literal), \<open>num_text\<close> the conversion of a number to its
  decimal text, \<open>rnd\<close> the rounding of an exact result to the nearest double, and
  \<open>json_parse\<close> is \<open>JSON.parse\<close> on a text that begins with an opening brace, where a
  successful parse is always an object (\<open>None\<close> is a \<open>SyntaxError\<close>).
  \<open>ceil_text\<close> is \<open>Math.ceil(parseFloat(g))\<close> as a template literal prints it, and
  \<open>None\<close> when that number is zero or \<open>NaN\<close>, which the program treats as absent.
\<close>

record runtime =
  str2num :: "string \<Rightarrow> jsnum"
  num_text :: "jsnum \<Rightarrow> string"
  rnd :: "rat \<Rightarrow> jsnum"
  json_parse :: "string \<Rightarrow> jsobj option"
  ceil_text :: "string \<Rightarrow> string option"

text \<open>
  \<open>Array.prototype.join\<close> with a comma, and the conversion of a value to a string.
  An object parsed from JSON has no callable property, so an own property named
  \<open>toString\<close> makes the conversion raise a \<open>TypeError\<close> (\<open>None\<close>); without it the
  inherited method answers \<open>[object Object]\<close>.
\<close>

fun join :: "string list \<Rightarrow> string" where
  "join [] = []"
| "join [s] = s"
| "join (s # t # ts) = s @ '','' @ join (t # ts)"

fun to_text :: "runtime \<Rightarrow> jsval \<Rightarrow> string option" where
  "to_text rt JUndefined = Some ''undefined''"
| "to_text rt JNull = Some ''null''"
| "to_text rt (JBool b) = Some (if b then ''true'' else ''false'')"
| "to_text rt (JNum n) = Some (num_text rt n)"
| "to_text rt (JStr s) = Some s"
| "to_text rt (JArr xs) =
     map_option join
       (those (map (\<lambda>x. if x = JNull \<or> x = JUndefined then Some [] else to_text rt x) xs))"
| "to_text rt (JObj kvs) =
     (if map_of kvs ''toString'' = None then Some ''[object Object]'' else None)"

text \<open>
  The conversion of a value to a number, as the operator \<open>*\<close> applies it.  An array
  and an object are converted to a string first; \<open>[object Object]\<close> is not a numeric
  literal.
\<close>

fun to_number :: "runtime \<Rightarrow> jsval \<Rightarrow> jsnum option" where
  "to_number rt JUndefined = Some NaN"
| "to_number rt JNull = Some (Fin 0)"
| "to_number rt (JBool b) = Some (Fin (if b then 1 else 0))"
| "to_number rt (JNum n) = Some n"
| "to_number rt (JStr s) = Some (str2num rt s)"
| "to_number rt (JArr xs) = map_option (str2num rt) (to_text rt (JArr xs))"
| "to_number rt (JObj kvs) = (if map_of kvs ''toString'' = None then Some NaN else None)"

text \<open>
  Arithmetic on doubles.  A product or a sum of integers is exact as long as it stays
  within 53 bits; every other finite result is rounded by \<open>rnd\<close>.  The right operand of
  a product is a positive literal of the source (30 or 10).
\<close>

definition exact_int :: "rat \<Rightarrow> bool" where
  "exact_int x = (x = of_int \<lfloor>x\<rfloor> \<and> \<bar>x\<bar> \<le> 2 ^ 53)"

fun js_times :: "runtime \<Rightarrow> jsnum \<Rightarrow> nat \<Rightarrow> jsnum" where
  "js_times rt (Fin a) k =
     (if exact_int a \<and> exact_int (a * of_nat k) then Fin (a * of_nat k) else rnd rt (a * of_nat k))"
| "js_times rt n k = n"

fun js_add :: "runtime \<Rightarrow> jsnum \<Rightarrow> jsnum \<Rightarrow> jsnum" where
  "js_add rt (Fin a) (Fin b) =
     (if exact_int a \<and> exact_int b \<and> exact_int (a + b) then Fin (a + b) else rnd rt (a + b))"
| "js_add rt NaN n = NaN"
| "js_add rt n NaN = NaN"
| "js_add rt PosInf NegInf = NaN"
| "js_add rt NegInf PosInf = NaN"
| "js_add rt (Fin a) n = n"
| "js_add rt n m = n"

text \<open>\<open>Math.min\<close>, \<open>Math.max\<close> and \<open>Math.round\<close>: \<open>NaN\<close> is contagious.\<close>

fun js_min :: "jsnum \<Rightarrow> jsnum \<Rightarrow> jsnum" where
  "js_min NaN n = NaN"
| "js_min n NaN = NaN"
| "js_min NegInf n = NegInf"
| "js_min n NegInf = NegInf"
| "js_min PosInf n = n"
| "js_min n PosInf = n"
| "js_min (Fin a) (Fin b) = Fin (min a b)"

fun js_max :: "jsnum \<Rightarrow> jsnum \<Rightarrow> jsnum" where
  "js_max NaN n = NaN"
| "js_max n NaN = NaN"
| "js_max PosInf n = PosInf"
| "js_max n PosInf = PosInf"
| "js_max NegInf n = n"
| "js_max n NegInf = n"
| "js_max (Fin a) (Fin b) = Fin (max a b)"

fun js_round :: "jsnum \<Rightarrow> jsnum" where
  "js_round (Fin a) = Fin (of_int \<lfloor>a + 1 / 2\<rfloor>)"
| "js_round n = n"

section \<open>The review client: extracting the JSON text\<close>

text \<open>
  The three regular expressions of \<open>reviewCode\<close>, each as the search the matcher runs.

  \<open>longest_upto ok s\<close> is the greedy \<open>[\s\S]*\}\<close> followed by a rest of the pattern
  that \<open>ok\<close> decides: the longest prefix of \<open>s\<close> that ends in a closing brace and whose
  remainder satisfies \<open>ok\<close>.
\<close>

fun longest_upto :: "(string \<Rightarrow> bool) \<Rightarrow> string \<Rightarrow> string option" where
  "longest_upto ok [] = None"
| "longest_upto ok (c # cs) =
     (case longest_upto ok cs of
        Some p \<Rightarrow> Some (c # p)
      | None \<Rightarrow> if c = CHR ''}'' \<and> ok cs then Some [c] else None)"

text \<open>\<open>\s*```\<close> at the head of a string.\<close>

definition closes :: "string \<Rightarrow> bool" where
  "closes s = startsWith (dropWhile is_space s) ''```''"

text \<open>\<open>\s*(\{[\s\S]*\})\s*```\<close> at the head of a string: the capture group.\<close>

definition braced_then_fence :: "string \<Rightarrow> string option" where
  "braced_then_fence q =
     (case dropWhile is_space q of
        [] \<Rightarrow> None
      | c # cs \<Rightarrow> if c = CHR ''{'' then map_option ((#) c) (longest_upto closes cs) else None)"

text \<open>
  The whole pattern \<open>```(?:json)?\s*(\{[\s\S]*\})\s*```\<close> at the head of a string: the
  optional \<open>json\<close> is tried first, and given up when the rest does not match.
\<close>

definition fence_here :: "string \<Rightarrow> string option" where
  "fence_here s =
     (if startsWith s ''```'' then
        (let r = drop 3 s in
         if startsWith r ''json'' then
           (case braced_then_fence (drop 4 r) of
              Some g \<Rightarrow> Some g
            | None \<Rightarrow> braced_then_fence r)
         else braced_then_fence r)
      else None)"

text \<open>\<open>match\<close> takes the leftmost position at which the pattern matches.\<close>

fun jsonBlockMatch :: "string \<Rightarrow> string option" where
  "jsonBlockMatch [] = fence_here []"
| "jsonBlockMatch (c # cs) =
     (case fence_here (c # cs) of Some g \<Rightarrow> Some g | None \<Rightarrow> jsonBlockMatch cs)"

text \<open>\<open>replace(/^[^{]*/, '')\<close> and \<open>replace(/[^}]*$/, '')\<close>.\<close>

definition strip_leading :: "string \<Rightarrow> string" where
  "strip_leading s = dropWhile (\<lambda>c. c \<noteq> CHR ''{'') s"

definition strip_trailing :: "string \<Rightarrow> string" where
  "strip_trailing s = rev (dropWhile (\<lambda>c. c \<noteq> CHR ''}'') (rev s))"

text \<open>\<open>match(/\{[\s\S]*\}/)\<close>: from the leftmost opening brace, as far as possible.\<close>

fun jsonMatch :: "string \<Rightarrow> string option" where
  "jsonMatch [] = None"
| "jsonMatch (c # cs) =
     (case (if c = CHR ''{'' then map_option ((#) c) (longest_upto (\<lambda>r. True) cs) else None) of
        Some m \<Rightarrow> Some m
      | None \<Rightarrow> jsonMatch cs)"

text \<open>
  Lines 83 to 103 of the client: \<open>None\<close> is the \<open>Error\<close> ``No JSON object found in
  response''.
\<close>

definition extract_json :: "string \<Rightarrow> string option" where
  "extract_json text =
     (let cleanedText = trim text in
      case jsonBlockMatch cleanedText of
        Some g \<Rightarrow> Some g
      | None \<Rightarrow>
          (let c1 = strip_leading cleanedText;
               c2 = strip_trailing c1
           in if \<not> startsWith c2 ''{'' then
                (case jsonMatch c2 of Some m \<Rightarrow> Some m | None \<Rightarrow> None)
              else Some c2))"

section \<open>The review client: post-processing the parsed object\<close>

text \<open>
  A thrown \<open>Error\<close> is its message.  The message of a \<open>TypeError\<close> that the run-time
  raises is the engine's.
\<close>

definition cannot_convert :: string where
  "cannot_convert = ''Cannot convert object to primitive value''"

text \<open>
  \<open>v?.length\<close>: the length of a string or an array, the property of that name of an
  object, and \<open>undefined\<close> for every other value.
\<close>

fun length_prop :: "jsval \<Rightarrow> jsval" where
  "length_prop (JStr s) = JNum (Fin (of_nat (length s)))"
| "length_prop (JArr xs) = JNum (Fin (of_nat (length xs)))"
| "length_prop (JObj kvs) = get_field kvs ''length''"
| "length_prop v = JUndefined"

text \<open>\<open>Math.min(100, (errorCount * 30) + (warningCount * 10))\<close>\<close>

definition curse_of_counts :: "runtime \<Rightarrow> jsval \<Rightarrow> jsval \<Rightarrow> string + jsnum" where
  "curse_of_counts rt errorCount warningCount =
     (case to_number rt errorCount of
        None \<Rightarrow> Inl cannot_convert
      | Some e \<Rightarrow>
          (case to_number rt warningCount of
             None \<Rightarrow> Inl cannot_convert
           | Some w \<Rightarrow> Inr (js_min (Fin 100) (js_add rt (js_times rt e 30) (js_times rt w 10)))))"

definition default_verdict :: string where
  "default_verdict = ''The code has been analyzed by The Code Reaper.''"

text \<open>Lines 126 to 131: the three lists, when one of them is missing.\<close>

definition default_lists :: "jsobj \<Rightarrow> jsobj" where
  "default_lists p =
     (if \<not> truthy (get_field p ''errors'') \<or> \<not> truthy (get_field p ''warnings'')
         \<or> \<not> truthy (get_field p ''suggestions'')
      then
        (let p1 = set_field ''errors'' (or_else (get_field p ''errors'') (JArr [])) p;
             p2 = set_field ''warnings'' (or_else (get_field p1 ''warnings'') (JArr [])) p1
         in set_field ''suggestions'' (or_else (get_field p2 ''suggestions'') (JArr [])) p2)
      else p)"

text \<open>Lines 134 and 135.\<close>

definition default_new_fields :: "jsobj \<Rightarrow> jsobj" where
  "default_new_fields p =
     (let p1 = set_field ''updatedCode'' (or_else (get_field p ''updatedCode'') JNull) p
      in set_field ''changes''
           (if isArray (get_field p1 ''changes'') then get_field p1 ''changes'' else JArr []) p1)"

text \<open>Lines 137 to 142: the curse level, when the provider gave no number.\<close>

definition derive_curse :: "runtime \<Rightarrow> jsobj \<Rightarrow> string + jsobj" where
  "derive_curse rt p =
     (if \<not> is_number (get_field p ''curseLevel'') then
        (let errorCount = or_else (length_prop (get_field p ''errors'')) (JNum (Fin 0));
             warningCount = or_else (length_prop (get_field p ''warnings'')) (JNum (Fin 0))
         in case curse_of_counts rt errorCount warningCount of
              Inl e \<Rightarrow> Inl e
            | Inr c \<Rightarrow> Inr (set_field ''curseLevel'' (JNum c) p))
      else Inr p)"

text \<open>Lines 144 to 146.\<close>

definition ensure_verdict :: "jsobj \<Rightarrow> jsobj" where
  "ensure_verdict p =
     (if \<not> truthy (get_field p ''verdict'') \<or> \<not> is_string (get_field p ''verdict'')
      then set_field ''verdict'' (JStr default_verdict) p else p)"

text \<open>Lines 149 to 151.\<close>

definition array_or_empty :: "jsval \<Rightarrow> jsval" where
  "array_or_empty v = (if isArray v then v else JArr [])"

definition ensure_arrays :: "jsobj \<Rightarrow> jsobj" where
  "ensure_arrays p =
     (let p1 = set_field ''errors'' (array_or_empty (get_field p ''errors'')) p;
          p2 = set_field ''warnings'' (array_or_empty (get_field p1 ''warnings'')) p1
      in set_field ''suggestions'' (array_or_empty (get_field p2 ''suggestions'')) p2)"

text \<open>Line 154: \<open>Math.max(0, Math.min(100, Math.round(curseLevel)))\<close>.\<close>

definition clamp :: "jsnum \<Rightarrow> jsnum" where
  "clamp n = js_max (Fin 0) (js_min (Fin 100) (js_round n))"

definition clamp_curse :: "runtime \<Rightarrow> jsobj \<Rightarrow> string + jsobj" where
  "clamp_curse rt p =
     (case to_number rt (get_field p ''curseLevel'') of
        None \<Rightarrow> Inl cannot_convert
      | Some n \<Rightarrow> Inr (set_field ''curseLevel'' (JNum (clamp n)) p))"

text \<open>Lines 125 to 156, in the order of the source.\<close>

definition post_process :: "runtime \<Rightarrow> jsobj \<Rightarrow> string + jsobj" where
  "post_process rt parsedResponse =
     (case derive_curse rt (default_new_fields (default_lists parsedResponse)) of
        Inl e \<Rightarrow> Inl e
      | Inr p \<Rightarrow> clamp_curse rt (ensure_arrays (ensure_verdict p)))"

section \<open>The review client: classifying a failure\<close>

text \<open>
  The horizontal ellipsis of two messages is a code unit above 255; it is written as its
  three UTF-8 bytes.
\<close>

definition ellipsis :: string where
  "ellipsis = [CHR 0xE2, CHR 0x80, CHR 0xA6]"

definition DEFAULT_MODEL :: string where
  "DEFAULT_MODEL = ''gemini-2.0-flash''"

record config =
  GEMINI_API_KEY :: "string option"
  GEMINI_MODEL :: "string option"

definition currentModel :: "config \<Rightarrow> string" where
  "currentModel cfg =
     (case GEMINI_MODEL cfg of None \<Rightarrow> DEFAULT_MODEL | Some m \<Rightarrow> if m = [] then DEFAULT_MODEL else m)"

text \<open>
  \<open>match(/retry in ([\d.]+)s/i)\<close>, and the same with \<open>Please\<close> in front: the capture
  group at the leftmost match.  Only the ASCII letters fold onto the letters of the pattern.
\<close>

definition lower :: "char \<Rightarrow> char" where
  "lower c =
     (let n = (of_char c :: nat) in if 65 \<le> n \<and> n \<le> 90 then char_of (n + 32) else c)"

fun starts_nocase :: "string \<Rightarrow> string \<Rightarrow> bool" where
  "starts_nocase s [] = True"
| "starts_nocase [] (p # ps) = False"
| "starts_nocase (c # cs) (p # ps) = (lower c = lower p \<and> starts_nocase cs ps)"

definition digit_or_dot :: "char \<Rightarrow> bool" where
  "digit_or_dot c = ((48 \<le> (of_char c :: nat) \<and> (of_char c :: nat) \<le> 57) \<or> c = CHR ''.'')"

definition retry_here :: "string \<Rightarrow> string \<Rightarrow> string option" where
  "retry_here pre s =
     (if starts_nocase s pre then
        (let r = drop (length pre) s;
             g = takeWhile digit_or_dot r
         in if g \<noteq> [] \<and> starts_nocase (dropWhile digit_or_dot r) ''s'' then Some g else None)
      else None)"

fun retry_match :: "string \<Rightarrow> string \<Rightarrow> string option" where
  "retry_match pre [] = retry_here pre []"
| "retry_match pre (c # cs) =
     (case retry_here pre (c # cs) of Some g \<Rightarrow> Some g | None \<Rightarrow> retry_match pre cs)"

definition retrySeconds :: "runtime \<Rightarrow> string \<Rightarrow> string option" where
  "retrySeconds rt message =
     (case (case retry_match ''retry in '' message of
              Some g \<Rightarrow> Some g
            | None \<Rightarrow> retry_match ''Please retry in '' message) of
        None \<Rightarrow> None
      | Some g \<Rightarrow> ceil_text rt g)"

definition key_message :: string where
  "key_message = ''The Reaper could not be summoned'' @ ellipsis @ '' check your API key.''"

definition overwhelmed_message :: string where
  "overwhelmed_message = ''The Reaper is overwhelmed. Please wait a moment and try again.''"

text \<open>Lines 157 to 200: the message of the \<open>Error\<close> that the outer \<open>catch\<close> throws.\<close>

definition classify :: "runtime \<Rightarrow> config \<Rightarrow> string \<Rightarrow> string" where
  "classify rt cfg message =
     (if js_includes message ''API key'' \<or> js_includes message ''GEMINI_API_KEY''
         \<or> js_includes message ''API_KEY_NOT_VALID''
      then key_message
      else if js_includes message ''quota'' \<or> js_includes message ''429''
         \<or> js_includes message ''Too Many Requests'' \<or> js_includes message ''RESOURCE_EXHAUSTED''
      then
        (if js_includes message ''free_tier_requests'' \<or> js_includes message ''FreeTier''
            \<or> js_includes message ''limit: 200''
         then ''The Reaper has reached its daily quota limit.'' @
           (case retrySeconds rt message of
              Some n \<Rightarrow> '' Please wait '' @ n @ '' seconds, or try again tomorrow.''
            | None \<Rightarrow> '' You have reached the free tier daily limit of 200 requests. Please try again tomorrow or upgrade your plan.'')
         else ''The Reaper is overwhelmed.'' @
           (case retrySeconds rt message of
              Some n \<Rightarrow> '' Please wait '' @ n @ '' seconds before trying again.''
            | None \<Rightarrow> '' Please wait a moment and try again.''))
      else if js_includes message ''rate limit'' \<or> js_includes message ''RATE_LIMIT_EXCEEDED''
      then overwhelmed_message
      else if js_includes message ''model'' \<or> js_includes message ''MODEL_NOT_FOUND''
         \<or> js_includes message ''404 Not Found'' \<or> js_includes message ''is not found''
      then ''The Gemini model '' @ [CHR 0x22] @ currentModel cfg @ [CHR 0x22] @
           '' is not available for your API key. Please check your API key permissions and ensure gemini-2.0-flash is available.''
      else ''The Reaper could not be summoned: '' @ (if message = [] then ''Unknown error'' else message))"

section \<open>The review client: \<open>reviewCode\<close>\<close>

text \<open>
  The call of the provider either raises an \<open>Error\<close> with a message or replies with a
  text; \<open>generate language code\<close> is what it does for the prompt built from the two.
  The client's handle \<open>genAI\<close> is built when the module is loaded, from the key that
  \<open>reviewCode\<close> reads again at every call.
\<close>

datatype provider = Raised string | Replied string

definition placeholder_key :: string where
  "placeholder_key = ''your_gemini_api_key_here''"

definition genAI :: "config \<Rightarrow> bool" where
  "genAI cfg = (case GEMINI_API_KEY cfg of None \<Rightarrow> False | Some k \<Rightarrow> k \<noteq> [] \<and> k \<noteq> placeholder_key)"

definition key_missing :: "config \<Rightarrow> bool" where
  "key_missing cfg =
     (case GEMINI_API_KEY cfg of
        None \<Rightarrow> True
      | Some k \<Rightarrow> k = [] \<or> k = placeholder_key \<or> trim k = [] \<or> \<not> genAI cfg)"

definition not_configured :: string where
  "not_configured = ''API key not configured. Please set GEMINI_API_KEY in your .env file with a valid API key from https://makersuite.google.com/app/apikey''"

definition parse_failure :: string where
  "parse_failure = ''Failed to parse AI response. Please ensure your code is valid and try again.''"

text \<open>Lines 113 to 119: the object the inner \<open>catch\<close> builds before it throws.\<close>

definition fallback :: jsobj where
  "fallback =
     [(''errors'', JArr []),
      (''warnings'', JArr [JObj [(''line'', JNum (Fin 1)),
         (''message'', JStr ''Failed to parse AI response. Please check the code and try again.'')]]),
      (''suggestions'', JArr []),
      (''verdict'', JStr ''The Reaper encountered an issue analyzing your code.''),
      (''curseLevel'', JNum (Fin 50))]"

text \<open>Lines 81 to 106: the text is cut out and parsed; \<open>None\<close> is either failure.\<close>

definition parse_reply :: "runtime \<Rightarrow> string \<Rightarrow> jsobj option" where
  "parse_reply rt text =
     (case extract_json text of None \<Rightarrow> None | Some cleanedText \<Rightarrow> json_parse rt cleanedText)"

definition reviewCode ::
  "runtime \<Rightarrow> config \<Rightarrow> (string \<Rightarrow> string \<Rightarrow> provider) \<Rightarrow> string \<Rightarrow> string \<Rightarrow> string + jsobj" where
  "reviewCode rt cfg generate code language =
     (if key_missing cfg then Inl not_configured
      else
        (case generate language code of
           Raised message \<Rightarrow> Inl (classify rt cfg message)
         | Replied text \<Rightarrow>
             (case parse_reply rt text of
                None \<Rightarrow>
                  (let parsedResponse = fallback in Inl (classify rt cfg parse_failure))
              | Some parsedResponse \<Rightarrow>
                  (case post_process rt parsedResponse of
                     Inl message \<Rightarrow> Inl (classify rt cfg message)
                   | Inr result \<Rightarrow> Inr result))))"

section \<open>The review endpoint\<close>

text \<open>
  A response is a status with a JSON body, or a redirect.  The handler of
  \<open>POST /api/review\<close> reads \<open>code\<close> and \<open>language\<close> from the request body
  (\<open>undefined\<close> when the body has no such field) and answers with a response; the calls
  of the client it made on the way are returned with it.
\<close>

datatype response = Json nat jsval | Redirect string

datatype event = ReviewCode string string

fun the_string :: "jsval \<Rightarrow> string" where
  "the_string (JStr s) = s"
| "the_string v = []"

definition error_body :: "string \<Rightarrow> jsval" where
  "error_body message = JObj [(''error'', JStr message)]"

text \<open>Lines 113 to 129: \<open>Some\<close> is the response of a rejected request.\<close>

definition validate :: "jsval \<Rightarrow> jsval \<Rightarrow> response option" where
  "validate code language =
     (if \<not> truthy code \<or> \<not> is_string code \<or> length (trim (the_string code)) = 0
      then Some (Json 400 (error_body ''Code is required and cannot be empty''))
      else if \<not> truthy language \<or> \<not> is_string language
      then Some (Json 400 (error_body ''Language is required''))
      else if length (the_string code) > 10000
      then Some (Json 400 (error_body ''Code is too long (maximum 10,000 characters)''))
      else None)"

text \<open>Lines 144 to 154: the endpoint normalises the client's result once more.\<close>

definition renormalize :: "runtime \<Rightarrow> jsobj \<Rightarrow> string + jsobj" where
  "renormalize rt result =
     (let r1 = (if \<not> isArray (get_field result ''errors'')
                then set_field ''errors'' (JArr []) result else result);
          r2 = (if \<not> isArray (get_field r1 ''warnings'')
                then set_field ''warnings'' (JArr []) r1 else r1);
          r3 = (if \<not> isArray (get_field r2 ''suggestions'')
                then set_field ''suggestions'' (JArr []) r2 else r2)
      in case (if \<not> is_number (get_field r3 ''curseLevel'') then
                 (case curse_of_counts rt (length_prop (get_field r3 ''errors''))
                         (length_prop (get_field r3 ''warnings'')) of
                    Inl e \<Rightarrow> Inl e
                  | Inr c \<Rightarrow> Inr (set_field ''curseLevel'' (JNum c) r3))
               else Inr r3) of
           Inl e \<Rightarrow> Inl e
         | Inr r4 \<Rightarrow>
             Inr (if \<not> truthy (get_field r4 ''verdict'') \<or> \<not> is_string (get_field r4 ''verdict'')
                  then set_field ''verdict'' (JStr default_verdict) r4 else r4))"

text \<open>Lines 159 to 180: the response to an \<open>Error\<close> with this message.\<close>

definition message_or :: "string \<Rightarrow> string \<Rightarrow> string" where
  "message_or message dflt = (if message = [] then dflt else message)"

definition catch_response :: "string \<Rightarrow> response" where
  "catch_response message =
     (if js_includes message ''API key'' \<or> js_includes message ''Reaper could not be summoned''
      then Json 500 (error_body (message_or message key_message))
      else if js_includes message ''quota'' \<or> js_includes message ''rate limit''
         \<or> js_includes message ''overwhelmed'' \<or> js_includes message ''daily quota''
      then Json 429 (error_body (message_or message overwhelmed_message))
      else Json 500 (error_body (message_or message ''An error occurred while reviewing the code.'')))"

text \<open>Lines 107 to 181.\<close>

definition review_handler ::
  "runtime \<Rightarrow> config \<Rightarrow> (string \<Rightarrow> string \<Rightarrow> provider) \<Rightarrow> jsval \<Rightarrow> jsval \<Rightarrow> response \<times> event list" where
  "review_handler rt cfg generate code language =
     (case validate code language of
        Some rejected \<Rightarrow> (rejected, [])
      | None \<Rightarrow>
          (let c = the_string code; l = the_string language in
           (case reviewCode rt cfg generate c l of
              Inl message \<Rightarrow> catch_response message
            | Inr result \<Rightarrow>
                (case renormalize rt result of
                   Inl message \<Rightarrow> catch_response message
                 | Inr body \<Rightarrow> Json 200 (JObj body)),
            [ReviewCode c l])))"

fun status :: "response \<Rightarrow> nat" where
  "status (Json n body) = n"
| "status (Redirect url) = 302"

section \<open>Calls to the remote host\<close>

text \<open>
  A \<open>fetch\<close> either rejects with an \<open>Error\<close> or answers with a status, a status text
  and a body; \<open>json()\<close> on the answer gives the parsed body or rejects with a message.
\<close>

datatype http_method = GET | POST | PUT

record http_request =
  verb :: http_method
  url :: string
  headers :: "(string \<times> string) list"
  payload :: "jsval option"

datatype fetch_result = Rejected string | Answer nat string "string + jsval"

definition ok :: "nat \<Rightarrow> bool" where
  "ok st = (200 \<le> st \<and> st \<le> 299)"

text \<open>The decimal text of a natural number, as a template literal prints it.\<close>

fun show_nat :: "nat \<Rightarrow> string" where
  "show_nat n =
     (if n < 10 then [char_of (48 + n)] else show_nat (n div 10) @ [char_of (48 + n mod 10)])"

declare show_nat.simps [simp del]

text \<open>
  Reading a property that no prototype defines (\<open>object\<close>, \<open>sha\<close>, \<open>message\<close> and
  the like): a \<open>TypeError\<close> on \<open>null\<close> and \<open>undefined\<close>, the own property of an
  object, and \<open>undefined\<close> on every other value.
\<close>

definition cannot_read :: "string \<Rightarrow> string \<Rightarrow> string" where
  "cannot_read what k = ''Cannot read properties of '' @ what @ '' (reading '' @ [CHR 0x27] @ k @ [CHR 0x27] @ '')''"

fun read_prop :: "jsval \<Rightarrow> string \<Rightarrow> string + jsval" where
  "read_prop JUndefined k = Inl (cannot_read ''undefined'' k)"
| "read_prop JNull k = Inl (cannot_read ''null'' k)"
| "read_prop (JObj kvs) k = Inr (get_field kvs k)"
| "read_prop v k = Inr JUndefined"

section \<open>The pull-request endpoint\<close>

text \<open>
  The body of \<open>POST /api/github/pull-request\<close>.  The handler tests each field with
  \<open>!\<close> only, which an absent field and an empty string both fail: an absent field is the
  empty string here.  \<open>now\<close> is \<open>Date.now()\<close>.
\<close>

text \<open>
  \<open>Buffer.from(s).toString('base64')\<close>: the bytes of the UTF-8 encoding of \<open>s\<close>,
  three at a time, as four characters of the base64 alphabet.
\<close>

definition utf8 :: "string \<Rightarrow> nat list" where
  "utf8 s =
     concat (map (\<lambda>c. let n = (of_char c :: nat) in
                        if n < 128 then [n] else [192 + n div 64, 128 + n mod 64]) s)"

definition b64_char :: "nat \<Rightarrow> char" where
  "b64_char n = ''ABCDEFGHIJKLMNOPQRSTUVWXYZabcdefghijklmnopqrstuvwxyz0123456789+/'' ! (n mod 64)"

fun b64 :: "nat list \<Rightarrow> string" where
  "b64 [] = []"
| "b64 [a] = [b64_char (a div 4), b64_char ((a mod 4) * 16), CHR ''='', CHR ''='']"
| "b64 [a, b] =
     [b64_char (a div 4), b64_char ((a mod 4) * 16 + b div 16), b64_char ((b mod 16) * 4), CHR ''='']"
| "b64 (a # b # c # rest) =
     [b64_char (a div 4), b64_char ((a mod 4) * 16 + b div 16),
      b64_char ((b mod 16) * 4 + c div 64), b64_char c] @ b64 rest"

definition base64 :: "string \<Rightarrow> string" where
  "base64 s = b64 (utf8 s)"

record pr_body =
  accessToken :: string
  owner :: string
  repo :: string
  filePath :: string
  improvedCode :: string
  category :: string
  explanation :: string

definition githubApiHeaders :: "pr_body \<Rightarrow> (string \<times> string) list" where
  "githubApiHeaders b =
     [(''Authorization'', ''Bearer '' @ accessToken b),
      (''Accept'', ''application/vnd.github+json''),
      (''User-Agent'', ''AIReviewMate'')]"

definition repo_url :: "pr_body \<Rightarrow> string" where
  "repo_url b = ''https://api.github.com/repos/'' @ owner b @ ''/'' @ repo b"

definition failed :: "string \<Rightarrow> response" where
  "failed message =
     Json 500 (JObj [(''error'', JStr ''Failed to create pull request''), (''message'', JStr message)])"

text \<open>Step E, lines 312 to 340.\<close>

definition pr_request :: "pr_body \<Rightarrow> string \<Rightarrow> http_request" where
  "pr_request b branchName =
     \<lparr>verb = POST, url = repo_url b @ ''/pulls'', headers = githubApiHeaders b,
      payload = Some (JObj [(''title'', JStr (''AI Review Suggestion: '' @ category b)),
                            (''head'', JStr branchName),
                            (''base'', JStr ''main''),
                            (''body'', JStr (explanation b))])\<rparr>"

definition pr_failure :: "runtime \<Rightarrow> nat \<Rightarrow> string + jsval \<Rightarrow> string" where
  "pr_failure rt st js =
     (let errorData = (case js of Inl e \<Rightarrow> JObj [] | Inr v \<Rightarrow> v) in
      case read_prop errorData ''message'' of
        Inl e \<Rightarrow> e
      | Inr m \<Rightarrow>
          (case to_text rt (or_else m (JStr ''Unknown error'')) of
             None \<Rightarrow> cannot_convert
           | Some t \<Rightarrow> ''Failed to create PR: '' @ show_nat st @ '' - '' @ t))"

definition step_e ::
  "runtime \<Rightarrow> (http_request \<Rightarrow> fetch_result) \<Rightarrow> pr_body \<Rightarrow> string \<Rightarrow> response \<times> http_request list" where
  "step_e rt remote b branchName =
     (let req = pr_request b branchName in
      (case remote req of
         Rejected e \<Rightarrow> failed e
       | Answer st txt js \<Rightarrow>
           if \<not> ok st then failed (pr_failure rt st js)
           else
             (case js of
                Inl e \<Rightarrow> failed e
              | Inr prData \<Rightarrow>
                  (case read_prop prData ''html_url'' of
                     Inl e \<Rightarrow> failed e
                   | Inr u \<Rightarrow>
                       (case read_prop prData ''number'' of
                          Inl e \<Rightarrow> failed e
                        | Inr n \<Rightarrow>
                            Json 200 (JObj [(''success'', JBool True), (''url'', u),
                                            (''number'', n), (''branch'', JStr branchName)])))),
       [req]))"

text \<open>Step D, lines 291 to 310.\<close>

definition commit_request :: "pr_body \<Rightarrow> string \<Rightarrow> jsval \<Rightarrow> http_request" where
  "commit_request b branchName fileSHA =
     \<lparr>verb = PUT, url = repo_url b @ ''/contents/'' @ filePath b, headers = githubApiHeaders b,
      payload = Some (JObj [(''message'', JStr (''AIReviewMate: '' @ category b)),
                            (''content'', JStr (base64 (improvedCode b))),
                            (''sha'', fileSHA),
                            (''branch'', JStr branchName)])\<rparr>"

definition step_d ::
  "runtime \<Rightarrow> (http_request \<Rightarrow> fetch_result) \<Rightarrow> pr_body \<Rightarrow> string \<Rightarrow> jsval
     \<Rightarrow> response \<times> http_request list" where
  "step_d rt remote b branchName fileSHA =
     (let req = commit_request b branchName fileSHA in
      case remote req of
        Rejected e \<Rightarrow> (failed e, [req])
      | Answer st txt js \<Rightarrow>
          if \<not> ok st then (failed (''Failed to commit code: '' @ show_nat st), [req])
          else (let (res, reqs) = step_e rt remote b branchName in (res, req # reqs)))"

text \<open>Step C, lines 275 to 289.\<close>

definition file_request :: "pr_body \<Rightarrow> http_request" where
  "file_request b =
     \<lparr>verb = GET, url = repo_url b @ ''/contents/'' @ filePath b, headers = githubApiHeaders b,
      payload = None\<rparr>"

definition step_c ::
  "runtime \<Rightarrow> (http_request \<Rightarrow> fetch_result) \<Rightarrow> pr_body \<Rightarrow> string
     \<Rightarrow> response \<times> http_request list" where
  "step_c rt remote b branchName =
     (let req = file_request b in
      case remote req of
        Rejected e \<Rightarrow> (failed e, [req])
      | Answer st txt js \<Rightarrow>
          if \<not> ok st then (failed (''Failed to fetch file: '' @ show_nat st), [req])
          else
            (case js of
               Inl e \<Rightarrow> (failed e, [req])
             | Inr fileData \<Rightarrow>
                 (case read_prop fileData ''sha'' of
                    Inl e \<Rightarrow> (failed e, [req])
                  | Inr fileSHA \<Rightarrow>
                      (let (res, reqs) = step_d rt remote b branchName fileSHA
                       in (res, req # reqs)))))"

text \<open>Step B, lines 251 to 273.\<close>

definition branch_request :: "pr_body \<Rightarrow> string \<Rightarrow> jsval \<Rightarrow> http_request" where
  "branch_request b branchName mainBranchSHA =
     \<lparr>verb = POST, url = repo_url b @ ''/git/refs'', headers = githubApiHeaders b,
      payload = Some (JObj [(''ref'', JStr (''refs/heads/'' @ branchName)),
                            (''sha'', mainBranchSHA)])\<rparr>"

definition branch_conflict :: response where
  "branch_conflict =
     Json 409 (JObj [(''error'', JStr ''Branch conflict''),
                     (''message'', JStr ''A branch with this name already exists. Please try again.'')])"

definition step_b ::
  "runtime \<Rightarrow> (http_request \<Rightarrow> fetch_result) \<Rightarrow> pr_body \<Rightarrow> string \<Rightarrow> jsval
     \<Rightarrow> response \<times> http_request list" where
  "step_b rt remote b branchName mainBranchSHA =
     (let req = branch_request b branchName mainBranchSHA in
      case remote req of
        Rejected e \<Rightarrow> (failed e, [req])
      | Answer st txt js \<Rightarrow>
          if st = 409 then (branch_conflict, [req])
          else if \<not> ok st then (failed (''Failed to create branch: '' @ show_nat st), [req])
          else (let (res, reqs) = step_c rt remote b branchName in (res, req # reqs)))"

text \<open>Step A, lines 227 to 249.\<close>

definition ref_request :: "pr_body \<Rightarrow> http_request" where
  "ref_request b =
     \<lparr>verb = GET, url = repo_url b @ ''/git/refs/heads/main'', headers = githubApiHeaders b,
      payload = None\<rparr>"

definition expired_token :: response where
  "expired_token =
     Json 401 (JObj [(''error'', JStr ''Invalid or expired token''),
                     (''message'', JStr ''Please re-authenticate with GitHub'')])"

definition step_a ::
  "runtime \<Rightarrow> (http_request \<Rightarrow> fetch_result) \<Rightarrow> pr_body \<Rightarrow> string
     \<Rightarrow> response \<times> http_request list" where
  "step_a rt remote b branchName =
     (let req = ref_request b in
      case remote req of
        Rejected e \<Rightarrow> (failed e, [req])
      | Answer st txt js \<Rightarrow>
          if st = 401 then (expired_token, [req])
          else if \<not> ok st then (failed (''Failed to fetch main branch: '' @ show_nat st), [req])
          else
            (case js of
               Inl e \<Rightarrow> (failed e, [req])
             | Inr refData \<Rightarrow>
                 (case read_prop refData ''object'' of
                    Inl e \<Rightarrow> (failed e, [req])
                  | Inr obj \<Rightarrow>
                      (case read_prop obj ''sha'' of
                         Inl e \<Rightarrow> (failed e, [req])
                       | Inr mainBranchSHA \<Rightarrow>
                           (let (res, reqs) = step_b rt remote b branchName mainBranchSHA
                            in (res, req # reqs))))))"

text \<open>Lines 209 to 348: the response and the requests sent to the remote, in order.\<close>

definition pull_request_handler ::
  "runtime \<Rightarrow> nat \<Rightarrow> (http_request \<Rightarrow> fetch_result) \<Rightarrow> pr_body
     \<Rightarrow> response \<times> http_request list" where
  "pull_request_handler rt now remote b =
     (if accessToken b = [] \<or> owner b = [] \<or> repo b = [] \<or> filePath b = []
         \<or> improvedCode b = [] \<or> category b = [] \<or> explanation b = []
      then (Json 400 (JObj [(''error'', JStr ''Missing required fields'')]), [])
      else step_a rt remote b (''aireviewmate-update-'' @ show_nat now))"

section \<open>The OAuth callback\<close>

text \<open>
  \<open>encodeURIComponent\<close> keeps the letters, the digits and \<open>- _ . ! ~ * ' ( )\<close>, and
  writes every other code unit as the bytes of its UTF-8 encoding, each as a percent sign
  and two capital hexadecimal digits.
\<close>

definition hex_digit :: "nat \<Rightarrow> char" where
  "hex_digit n = ''0123456789ABCDEF'' ! (n mod 16)"

definition percent :: "nat \<Rightarrow> string" where
  "percent n = [CHR ''%'', hex_digit (n div 16), hex_digit n]"

definition unreserved :: "char \<Rightarrow> bool" where
  "unreserved c =
     (c \<in> set ''ABCDEFGHIJKLMNOPQRSTUVWXYZabcdefghijklmnopqrstuvwxyz0123456789-_.!~*()''
      \<or> c = CHR 0x27)"

definition encode_unit :: "char \<Rightarrow> string" where
  "encode_unit c =
     (let n = (of_char c :: nat) in
      if unreserved c then [c]
      else if n < 128 then percent n
      else percent (192 + n div 64) @ percent (128 + n mod 64))"

definition encodeURIComponent :: "string \<Rightarrow> string" where
  "encodeURIComponent s = concat (map encode_unit s)"

record oauth_env =
  CLIENT_URL :: "string option"
  GITHUB_CLIENT_ID :: "string option"
  GITHUB_CLIENT_SECRET :: "string option"

definition unset :: "string option \<Rightarrow> bool" where
  "unset v = (case v of None \<Rightarrow> True | Some s \<Rightarrow> s = [])"

definition frontendUrl :: "oauth_env \<Rightarrow> string" where
  "frontendUrl env =
     (case CLIENT_URL env of None \<Rightarrow> ''http://localhost:5173''
      | Some u \<Rightarrow> if u = [] then ''http://localhost:5173'' else u)"

definition redirect_error :: "oauth_env \<Rightarrow> string \<Rightarrow> response" where
  "redirect_error env message =
     Redirect (frontendUrl env @ ''#error='' @ encodeURIComponent message)"

text \<open>
  \<open>errorDescription.includes(needle)\<close>: the search of a string, the membership test
  of an array, and a \<open>TypeError\<close> (\<open>None\<close>) on a value of any other type.
\<close>

fun value_includes :: "jsval \<Rightarrow> string \<Rightarrow> bool option" where
  "value_includes (JStr s) needle = Some (js_includes s needle)"
| "value_includes (JArr xs) needle = Some (JStr needle \<in> set xs)"
| "value_includes v needle = None"

definition not_a_function :: string where
  "not_a_function = ''errorDescription.includes is not a function''"

text \<open>Lines 101 to 116: the payload carries an error or no token.\<close>

definition token_error :: "runtime \<Rightarrow> oauth_env \<Rightarrow> jsval \<Rightarrow> jsval \<Rightarrow> string + response" where
  "token_error rt env err descr =
     (let errorDescription = or_else (or_else descr err) (JStr ''No access token received'') in
      case value_includes errorDescription ''client_id'' of
        None \<Rightarrow> Inl not_a_function
      | Some a \<Rightarrow>
          (case (if a then Some True else value_includes errorDescription ''client_secret'') of
             None \<Rightarrow> Inl not_a_function
           | Some ab \<Rightarrow>
               if ab then Inr (redirect_error env ''GitHub OAuth configuration error: Please check your GITHUB_CLIENT_ID and GITHUB_CLIENT_SECRET in your .env file.'')
               else
                 (case value_includes errorDescription ''redirect_uri'' of
                    None \<Rightarrow> Inl not_a_function
                  | Some c \<Rightarrow>
                      if c then Inr (redirect_error env ''GitHub OAuth redirect URI mismatch: Please ensure GITHUB_REDIRECT_URI matches your GitHub app settings.'')
                      else
                        (case to_text rt errorDescription of
                           None \<Rightarrow> Inl cannot_convert
                         | Some t \<Rightarrow> Inr (redirect_error env (''GitHub OAuth failed: '' @ t))))))"

text \<open>
  Lines 77 to 123, the body of the \<open>try\<close>: \<open>Inl\<close> is the message of an \<open>Error\<close> raised
  in it.  \<open>text_fails\<close> is the message \<open>text()\<close> rejects with, when it does.
\<close>

definition exchange :: "runtime \<Rightarrow> oauth_env \<Rightarrow> fetch_result \<Rightarrow> string option \<Rightarrow> string + response" where
  "exchange rt env tokenResponse text_fails =
     (case tokenResponse of
        Rejected e \<Rightarrow> Inl e
      | Answer st statusText js \<Rightarrow>
          if \<not> ok st then
            (case text_fails of
               Some e \<Rightarrow> Inl e
             | None \<Rightarrow> Inr (redirect_error env (''GitHub OAuth failed: '' @ show_nat st @ '' '' @ statusText)))
          else
            (case js of
               Inl e \<Rightarrow> Inl e
             | Inr tokenData \<Rightarrow>
                 (case read_prop tokenData ''error'' of
                    Inl e \<Rightarrow> Inl e
                  | Inr err \<Rightarrow>
                      (case read_prop tokenData ''access_token'' of
                         Inl e \<Rightarrow> Inl e
                       | Inr token \<Rightarrow>
                           if truthy err \<or> \<not> truthy token then
                             (case read_prop tokenData ''error_description'' of
                                Inl e \<Rightarrow> Inl e
                              | Inr descr \<Rightarrow> token_error rt env err descr)
                           else
                             (case to_text rt token of
                                None \<Rightarrow> Inl cannot_convert
                              | Some t \<Rightarrow> Inr (Redirect (frontendUrl env @ ''#token='' @ t)))))))"

text \<open>
  Lines 62 to 129.  \<open>code\<close> is the query parameter (\<open>undefined\<close> when the query has
  none), and \<open>tokenResponse\<close> what the token endpoint does when it is asked.
\<close>

definition callback :: "runtime \<Rightarrow> oauth_env \<Rightarrow> jsval \<Rightarrow> fetch_result \<Rightarrow> string option \<Rightarrow> response" where
  "callback rt env code tokenResponse text_fails =
     (if \<not> truthy code then redirect_error env ''Missing authorization code from GitHub''
      else if unset (GITHUB_CLIENT_ID env) \<or> unset (GITHUB_CLIENT_SECRET env)
      then redirect_error env ''GitHub OAuth not configured. Please set GITHUB_CLIENT_ID and GITHUB_CLIENT_SECRET in your .env file.''
      else
        (case exchange rt env tokenResponse text_fails of
           Inr res \<Rightarrow> res
         | Inl message \<Rightarrow> redirect_error env (''GitHub OAuth failed: '' @ message)))"

section \<open>Sample environments and the vocabulary of the properties\<close>

text \<open>
  A run-time, a configuration and a provider for the examples.  The run-time parses the
  text \<open>{}\<close> and no other; the examples below use none of its other conversions.
\<close>

definition sample_runtime :: runtime where
  "sample_runtime =
     \<lparr>str2num = (\<lambda>s. NaN), num_text = (\<lambda>n. ''0''), rnd = Fin,
      json_parse = (\<lambda>s. if s = ''{}'' then Some [] else None), ceil_text = (\<lambda>g. None)\<rparr>"

definition sample_config :: config where
  "sample_config = \<lparr>GEMINI_API_KEY = Some ''key-1'', GEMINI_MODEL = None\<rparr>"

definition always :: "provider \<Rightarrow> string \<Rightarrow> string \<Rightarrow> provider" where
  "always p language code = p"

text \<open>
  The requests that the specification says are rejected: \<open>code\<close> missing, not a string
  or empty after trimming, \<open>language\<close> missing or not a string, \<open>code\<close> longer than
  10,000 characters.  The endpoint rejects one more: an empty \<open>language\<close>.
\<close>

definition claimed_rejection :: "jsval \<Rightarrow> jsval \<Rightarrow> bool" where
  "claimed_rejection code language =
     (code = JUndefined \<or> \<not> is_string code \<or> trim (the_string code) = []
      \<or> language = JUndefined \<or> \<not> is_string language
      \<or> length (the_string code) > 10000)"

definition rejection :: "jsval \<Rightarrow> jsval \<Rightarrow> bool" where
  "rejection code language = (claimed_rejection code language \<or> language = JStr [])"

text \<open>
  A body for the pull-request endpoint, and three remotes.  \<open>obliging\<close> answers every
  request with 200 and the fields the handler reads; \<open>branch_exists\<close> answers a reading
  request in the same way and every other request with 409; \<open>master_only b\<close> is a
  repository whose only branch, and so its default branch, is \<open>master\<close>: it answers the
  request for the head of \<open>master\<close> and has nothing else to give.
\<close>

definition sample_body :: pr_body where
  "sample_body =
     \<lparr>accessToken = ''token-1'', owner = ''octo'', repo = ''demo'', filePath = ''src/app.py'',
      improvedCode = ''x = 1'', category = ''Bug Fix'', explanation = ''The code is cursed.''\<rparr>"

definition all_present :: "pr_body \<Rightarrow> bool" where
  "all_present b =
     (accessToken b \<noteq> [] \<and> owner b \<noteq> [] \<and> repo b \<noteq> [] \<and> filePath b \<noteq> []
      \<and> improvedCode b \<noteq> [] \<and> category b \<noteq> [] \<and> explanation b \<noteq> [])"

definition obliging :: "http_request \<Rightarrow> fetch_result" where
  "obliging q =
     Answer 200 ''OK''
       (Inr (JObj [(''object'', JObj [(''sha'', JStr ''abc123'')]), (''sha'', JStr ''def456''),
                   (''html_url'', JStr ''https://github.com/octo/demo/pull/7''),
                   (''number'', JNum (Fin 7))]))"

definition branch_exists :: "http_request \<Rightarrow> fetch_result" where
  "branch_exists q =
     (if verb q = GET then obliging q else Answer 409 ''Conflict'' (Inr (JObj [])))"

definition head_ref_url :: "pr_body \<Rightarrow> string \<Rightarrow> string" where
  "head_ref_url b branch = repo_url b @ ''/git/refs/heads/'' @ branch"

definition master_only :: "pr_body \<Rightarrow> http_request \<Rightarrow> fetch_result" where
  "master_only b q =
     (if verb q = GET \<and> url q = head_ref_url b ''master'' then obliging q
      else Answer 404 ''Not Found'' (Inr (JObj [(''message'', JStr ''Not Found'')])))"

definition branch_name :: "nat \<Rightarrow> string" where
  "branch_name now = ''aireviewmate-update-'' @ show_nat now"

text \<open>
  The states of the OAuth callback, in the words of the specification.  The exchange
  has succeeded when the query has a \<open>code\<close>, the credentials are set, the token
  endpoint answers with a success status and a payload that has an \<open>access_token\<close> and
  no \<open>error\<close>; \<open>granted_token\<close> is then the token as the redirect prints it.  Every
  other state is a failure, reported with one of four fixed texts or with a text that
  begins with ``GitHub OAuth failed: ''.  \<open>sample_env\<close> is an environment for the
  examples.
\<close>

definition granted_token :: "runtime \<Rightarrow> oauth_env \<Rightarrow> jsval \<Rightarrow> fetch_result \<Rightarrow> string option" where
  "granted_token rt env code tokenResponse =
     (if truthy code \<and> \<not> unset (GITHUB_CLIENT_ID env) \<and> \<not> unset (GITHUB_CLIENT_SECRET env) then
        (case tokenResponse of
           Answer st txt (Inr (JObj kvs)) \<Rightarrow>
             if ok st \<and> \<not> truthy (get_field kvs ''error'') \<and> truthy (get_field kvs ''access_token'')
             then to_text rt (get_field kvs ''access_token'') else None
         | _ \<Rightarrow> None)
      else None)"

definition oauth_error_text :: "string \<Rightarrow> bool" where
  "oauth_error_text m =
     (m = ''Missing authorization code from GitHub''
      \<or> m = ''GitHub OAuth not configured. Please set GITHUB_CLIENT_ID and GITHUB_CLIENT_SECRET in your .env file.''
      \<or> m = ''GitHub OAuth configuration error: Please check your GITHUB_CLIENT_ID and GITHUB_CLIENT_SECRET in your .env file.''
      \<or> m = ''GitHub OAuth redirect URI mismatch: Please ensure GITHUB_REDIRECT_URI matches your GitHub app settings.''
      \<or> startsWith m ''GitHub OAuth failed: '')"

definition sample_env :: oauth_env where
  "sample_env =
     \<lparr>CLIENT_URL = Some ''https://app.example'', GITHUB_CLIENT_ID = Some ''client-1'',
      GITHUB_CLIENT_SECRET = Some ''secret-1''\<rparr>"

text \<open>
  The list a field of the parsed object stands for: an array itself, and the empty list
  for a field that is missing or falsy.  Any other value is no list.
\<close>

definition listed :: "jsval \<Rightarrow> jsval list option" where
  "listed v = (case v of JArr xs \<Rightarrow> Some xs | _ \<Rightarrow> if truthy v then None else Some [])"

text \<open>
  A reply of the provider whose \<open>errors\<close> is an object with a property \<open>length\<close>,
  the object it parses to, and a run-time that parses it.
\<close>

definition stray_reply :: string where
  "stray_reply = ''{'' @ [CHR 0x22] @ ''errors'' @ [CHR 0x22] @ '':{'' @ [CHR 0x22] @ ''length''
                  @ [CHR 0x22] @ '':{}}}''"

definition stray_object :: jsobj where
  "stray_object = [(''errors'', JObj [(''length'', JObj [])])]"

definition stray_runtime :: runtime where
  "stray_runtime =
     sample_runtime\<lparr>json_parse := (\<lambda>s. if s = stray_reply then Some stray_object else None)\<rparr>"

text \<open>
  What the extraction is to isolate, in the words of the specification.  A braced
  object is a text from an opening to a closing brace.  Stripping the leading characters up to the first opening brace and the
  trailing characters after the last closing brace isolates \<open>s\<close> when \<open>s\<close> is a
  braced object with no opening brace before it and no closing brace after it.
\<close>

definition braced :: "string \<Rightarrow> bool" where
  "braced g = (\<exists>body. g = CHR ''{'' # body @ [CHR ''}''])"

text \<open>
  An occurrence of the fenced pattern: after \<open>pre\<close> comes a fence, an optional
  \<open>json\<close>, white space, the braced text \<open>g\<close>, white space and a fence.  The braced
  text may itself contain fences.  The contents of a fenced code block are such a text
  with no fence inside.  The span the greedy pattern takes is the one of the leftmost
  occurrence and, there, the longest.
\<close>

definition tag_ok :: "string \<Rightarrow> bool" where
  "tag_ok tag = (list_all is_space tag \<or> (\<exists>w. tag = ''json'' @ w \<and> list_all is_space w))"

definition fenced_at :: "string \<Rightarrow> string \<Rightarrow> string \<Rightarrow> bool" where
  "fenced_at text pre g =
     (\<exists>tag ws post.
        text = pre @ ''```'' @ tag @ g @ ws @ ''```'' @ post
        \<and> tag_ok tag \<and> braced g \<and> list_all is_space ws)"

definition fenced_block :: "string \<Rightarrow> string \<Rightarrow> bool" where
  "fenced_block text g = ((\<exists>pre. fenced_at text pre g) \<and> \<not> js_includes g ''```'')"

definition fenced_span :: "string \<Rightarrow> string \<Rightarrow> bool" where
  "fenced_span text g =
     (\<exists>pre. fenced_at text pre g
        \<and> (\<forall>pre' g'. fenced_at text pre' g' \<longrightarrow>
              length pre < length pre' \<or> (length pre = length pre' \<and> length g' \<le> length g)))"

text \<open>A reply with two fenced blocks.\<close>

definition two_blocks :: string where
  "two_blocks = ''```json {} ``` and ```json {} ```''"

definition between_braces :: "string \<Rightarrow> string \<Rightarrow> bool" where
  "between_braces text s =
     (\<exists>pre post. text = pre @ s @ post \<and> CHR ''{'' \<notin> set pre \<and> CHR ''}'' \<notin> set post \<and> braced s)"

section \<open>Properties of the review endpoint's validation\<close>

lemma trim_Nil [simp]: "trim [] = []"
  by (simp add: trim_def)

lemma validate_None_iff: "validate code language = None \<longleftrightarrow> \<not> rejection code language"
  by (cases code; cases language)
     (auto simp: validate_def rejection_def claimed_rejection_def)

lemma validate_status: "validate code language = Some r \<Longrightarrow> status r = 400"
  by (auto simp: validate_def split: if_splits)

lemma catch_response_not_400: "status (catch_response m) \<noteq> 400"
  by (simp add: catch_response_def)

lemma handler_passed:
  "validate code language = None \<Longrightarrow>
   status (fst (review_handler rt cfg generate code language)) \<noteq> 400 \<and>
   snd (review_handler rt cfg generate code language)
     = [ReviewCode (the_string code) (the_string language)]"
  by (simp add: review_handler_def Let_def catch_response_not_400 split: sum.splits)

lemma handler_rejected:
  "validate code language = Some r \<Longrightarrow> review_handler rt cfg generate code language = (r, [])"
  by (simp add: review_handler_def)

text \<open>
  C2, as amended.  The endpoint answers 400 exactly for the requests of \<open>rejection\<close>:
  those the specification lists and those with an empty \<open>language\<close>.  A rejected request
  reaches no call of the client, every other request reaches exactly one, and a \<open>code\<close>
  that is missing, not a string or blank is answered with ``Code is required and cannot be
  empty''.
\<close>

theorem review_validation:
  "(status (fst (review_handler rt cfg generate code language)) = 400
      \<longleftrightarrow> rejection code language)
   \<and> snd (review_handler rt cfg generate code language) =
       (if rejection code language then []
        else [ReviewCode (the_string code) (the_string language)])
   \<and> (if \<not> is_string code \<or> trim (the_string code) = []
       then fst (review_handler rt cfg generate code language) =
              Json 400 (error_body ''Code is required and cannot be empty'')
       else True)"
proof (cases "validate code language")
  case None
  then show ?thesis
    using handler_passed [OF None, of rt cfg generate] validate_None_iff [of code language]
    by (auto simp: rejection_def claimed_rejection_def)
next
  case (Some r)
  then have rej: "rejection code language"
    using validate_None_iff [of code language] by auto
  have "fst (review_handler rt cfg generate code language) = r"
    and "snd (review_handler rt cfg generate code language) = []"
    using handler_rejected [OF Some, of rt cfg generate] by simp_all
  moreover have "status r = 400" using Some by (rule validate_status)
  moreover have "\<not> is_string code \<or> trim (the_string code) = [] \<Longrightarrow>
      r = Json 400 (error_body ''Code is required and cannot be empty'')"
    using Some by (cases code) (auto simp: validate_def split: if_splits)
  ultimately show ?thesis using rej by auto
qed

theorem review_validation_witness:
  "(status (fst (review_handler sample_runtime sample_config (always (Replied ''{}''))
                  (JStr ''x = 1'') (JStr ''python''))) = 400
      \<longleftrightarrow> rejection (JStr ''x = 1'') (JStr ''python''))
   \<and> snd (review_handler sample_runtime sample_config (always (Replied ''{}''))
            (JStr ''x = 1'') (JStr ''python''))
       = [ReviewCode ''x = 1'' ''python'']"
  using review_validation [of sample_runtime sample_config "always (Replied ''{}'')"
      "JStr ''x = 1''" "JStr ''python''"]
  by (simp add: rejection_def claimed_rejection_def trim_def is_space_def)

text \<open>
  The claim C2 as it is written fails on a request whose \<open>language\<close> is the empty
  string: the answer is 400 and no call is made, although \<open>language\<close> is present and a
  string, and \<open>code\<close> is a short string that is not blank.
\<close>

theorem empty_language_counterexample:
  "review_handler sample_runtime sample_config (always (Replied ''{}''))
       (JStr ''x = 1'') (JStr [])
     = (Json 400 (error_body ''Language is required''), [])
   \<and> \<not> claimed_rejection (JStr ''x = 1'') (JStr [])"
  by (simp add: review_handler_def validate_def claimed_rejection_def trim_def is_space_def)

text \<open>
  C10.  A request whose \<open>language\<close> is falsy (the empty string, but also a missing
  field, \<open>null\<close>, \<open>false\<close> or zero) is answered with 400 and reaches no call of the
  client.  When the request reaches the check of \<open>language\<close>, that is when its
  \<open>code\<close> is a string that is not blank, the body is ``Language is required''.
\<close>

theorem falsy_language_rejected:
  assumes "\<not> truthy language"
  shows "status (fst (review_handler rt cfg generate code language)) = 400
         \<and> snd (review_handler rt cfg generate code language) = []
         \<and> (is_string code \<and> trim (the_string code) \<noteq> [] \<longrightarrow>
              review_handler rt cfg generate code language
                = (Json 400 (error_body ''Language is required''), []))"
  using assms by (cases code) (auto simp: review_handler_def validate_def)

theorem falsy_language_rejected_witness:
  "\<not> truthy (JStr []) \<and> is_string (JStr ''x = 1'') \<and> trim (the_string (JStr ''x = 1'')) \<noteq> []
   \<and> review_handler sample_runtime sample_config (always (Replied ''{}'')) (JStr ''x = 1'') (JStr [])
     = (Json 400 (error_body ''Language is required''), [])"
proof -
  have h: "\<not> truthy (JStr [])" by simp
  have c: "is_string (JStr ''x = 1'') \<and> trim (the_string (JStr ''x = 1'')) \<noteq> []"
    by (simp add: trim_def is_space_def)
  have "review_handler sample_runtime sample_config (always (Replied ''{}'')) (JStr ''x = 1'') (JStr [])
     = (Json 400 (error_body ''Language is required''), [])"
    using falsy_language_rejected [OF h, of sample_runtime sample_config
        "always (Replied ''{}'')" "JStr ''x = 1''"] c
    by blast
  with h c show ?thesis by blast
qed

section \<open>Properties of the review endpoint's error mapping\<close>

text \<open>
  C8, as amended.  When a request has passed validation and the client fails with the
  message \<open>m\<close>, the endpoint first looks for ``API key'' and ``Reaper could not be
  summoned'' in \<open>m\<close> and answers 500; only a message with neither is searched for
  ``quota'', ``rate limit'', ``overwhelmed'' and ``daily quota'' and answered with 429;
  every other message is answered with 500.  The body carries \<open>m\<close>, and a fixed text when
  \<open>m\<close> is empty.
\<close>

theorem review_failure_status:
  assumes "validate code language = None"
      and "reviewCode rt cfg generate (the_string code) (the_string language) = Inl m"
  shows "fst (review_handler rt cfg generate code language) =
     Json (if js_includes m ''API key'' \<or> js_includes m ''Reaper could not be summoned'' then 500
           else if js_includes m ''quota'' \<or> js_includes m ''rate limit''
                   \<or> js_includes m ''overwhelmed'' \<or> js_includes m ''daily quota'' then 429
           else 500)
          (error_body (if m = [] then ''An error occurred while reviewing the code.'' else m))"
  using assms
  by (cases "m = []") (simp_all add: review_handler_def Let_def catch_response_def message_or_def)

theorem review_failure_status_witness:
  "validate (JStr ''x = 1'') (JStr ''python'') = None
   \<and> reviewCode sample_runtime sample_config (always (Raised ''quota exceeded''))
        (the_string (JStr ''x = 1'')) (the_string (JStr ''python''))
       = Inl overwhelmed_message
   \<and> fst (review_handler sample_runtime sample_config (always (Raised ''quota exceeded''))
            (JStr ''x = 1'') (JStr ''python''))
       = Json 429 (error_body overwhelmed_message)"
proof -
  have v: "validate (JStr ''x = 1'') (JStr ''python'') = None"
    by code_simp
  have r: "reviewCode sample_runtime sample_config (always (Raised ''quota exceeded''))
      (the_string (JStr ''x = 1'')) (the_string (JStr ''python'')) = Inl overwhelmed_message"
    by code_simp
  have c: "fst (review_handler sample_runtime sample_config (always (Raised ''quota exceeded''))
            (JStr ''x = 1'') (JStr ''python''))
       = Json 429 (error_body overwhelmed_message)"
    using review_failure_status [OF v r] by (simp add: overwhelmed_message_def)
  from v r c show ?thesis by blast
qed

text \<open>
  The claim C8 as it is written fails when the provider fails with ``server
  overwhelmed'': the client wraps the message, the wrapped message contains
  ``overwhelmed'', and the endpoint answers 500, not 429.
\<close>

theorem overwhelmed_counterexample:
  "reviewCode sample_runtime sample_config (always (Raised ''server overwhelmed'')) ''x = 1'' ''python''
     = Inl ''The Reaper could not be summoned: server overwhelmed''
   \<and> js_includes ''The Reaper could not be summoned: server overwhelmed'' ''overwhelmed''
   \<and> fst (review_handler sample_runtime sample_config (always (Raised ''server overwhelmed''))
            (JStr ''x = 1'') (JStr ''python''))
       = Json 500 (error_body ''The Reaper could not be summoned: server overwhelmed'')"
  by code_simp

section \<open>Properties of the pull-request endpoint\<close>

lemma ok_409 [simp]: "\<not> ok 409"
  by (simp add: ok_def)

lemma ok_not_401: "ok st \<Longrightarrow> st \<noteq> 401"
  by (auto simp: ok_def)

text \<open>
  C7.  When every field of the body is present, step (a) has read a reference with an
  object and a commit in it, and the remote answers the creation of the branch with 409,
  the endpoint answers 409 with the error ``Branch conflict''.  The requests it sent are
  the two of steps (a) and (b): the file was not read, nothing was committed and no pull
  request was opened.
\<close>

theorem branch_conflict_stops:
  assumes "all_present b"
      and "remote (ref_request b) = Answer st txt (Inr refData)"
      and "ok st"
      and "read_prop refData ''object'' = Inr obj"
      and "read_prop obj ''sha'' = Inr sha"
      and "remote (branch_request b (branch_name now) sha) = Answer 409 txt' js"
  shows "pull_request_handler rt now remote b
           = (Json 409 (JObj [(''error'', JStr ''Branch conflict''),
                (''message'', JStr ''A branch with this name already exists. Please try again.'')]),
              [ref_request b, branch_request b (branch_name now) sha])
         \<and> file_request b \<notin> set (snd (pull_request_handler rt now remote b))
         \<and> commit_request b (branch_name now) fileSHA \<notin> set (snd (pull_request_handler rt now remote b))
         \<and> pr_request b (branch_name now) \<notin> set (snd (pull_request_handler rt now remote b))"
proof -
  have run: "pull_request_handler rt now remote b
      = (branch_conflict, [ref_request b, branch_request b (branch_name now) sha])"
    using assms ok_not_401 [OF assms(3)]
    by (simp add: pull_request_handler_def all_present_def step_a_def step_b_def branch_name_def)
  have "file_request b \<noteq> ref_request b"
    by (simp add: file_request_def ref_request_def)
  moreover have "file_request b \<noteq> branch_request b (branch_name now) sha"
    by (simp add: file_request_def branch_request_def)
  moreover have "commit_request b (branch_name now) fileSHA \<noteq> ref_request b"
    by (simp add: commit_request_def ref_request_def)
  moreover have "commit_request b (branch_name now) fileSHA \<noteq> branch_request b (branch_name now) sha"
    by (simp add: commit_request_def branch_request_def)
  moreover have "pr_request b (branch_name now) \<noteq> ref_request b"
    by (simp add: pr_request_def ref_request_def)
  moreover have "pr_request b (branch_name now) \<noteq> branch_request b (branch_name now) sha"
    by (simp add: pr_request_def branch_request_def)
  ultimately show ?thesis
    using run by (simp add: branch_conflict_def)
qed

theorem branch_conflict_stops_witness:
  "all_present sample_body
   \<and> branch_exists (ref_request sample_body)
       = Answer 200 ''OK'' (Inr (JObj [(''object'', JObj [(''sha'', JStr ''abc123'')]), (''sha'', JStr ''def456''),
                   (''html_url'', JStr ''https://github.com/octo/demo/pull/7''),
                   (''number'', JNum (Fin 7))]))
   \<and> ok 200
   \<and> branch_exists (branch_request sample_body (branch_name 17) (JStr ''abc123''))
       = Answer 409 ''Conflict'' (Inr (JObj []))
   \<and> pull_request_handler sample_runtime 17 branch_exists sample_body
       = (Json 409 (JObj [(''error'', JStr ''Branch conflict''),
            (''message'', JStr ''A branch with this name already exists. Please try again.'')]),
          [ref_request sample_body, branch_request sample_body (branch_name 17) (JStr ''abc123'')])"
proof -
  have a: "all_present sample_body" by code_simp
  have b: "branch_exists (ref_request sample_body)
       = Answer 200 ''OK'' (Inr (JObj [(''object'', JObj [(''sha'', JStr ''abc123'')]), (''sha'', JStr ''def456''),
                   (''html_url'', JStr ''https://github.com/octo/demo/pull/7''),
                   (''number'', JNum (Fin 7))]))"
    by (simp add: branch_exists_def ref_request_def obliging_def)
  have c: "ok 200" by (simp add: ok_def)
  have d: "read_prop (JObj [(''object'', JObj [(''sha'', JStr ''abc123'')]), (''sha'', JStr ''def456''),
                   (''html_url'', JStr ''https://github.com/octo/demo/pull/7''),
                   (''number'', JNum (Fin 7))]) ''object'' = Inr (JObj [(''sha'', JStr ''abc123'')])"
    by (simp add: get_field_def)
  have e: "read_prop (JObj [(''sha'', JStr ''abc123'')]) ''sha'' = Inr (JStr ''abc123'')"
    by (simp add: get_field_def)
  have f: "branch_exists (branch_request sample_body (branch_name 17) (JStr ''abc123''))
       = Answer 409 ''Conflict'' (Inr (JObj []))"
    by (simp add: branch_exists_def branch_request_def)
  from branch_conflict_stops [OF a b c d e f, of sample_runtime JNull]
  have g: "pull_request_handler sample_runtime 17 branch_exists sample_body
       = (Json 409 (JObj [(''error'', JStr ''Branch conflict''),
            (''message'', JStr ''A branch with this name already exists. Please try again.'')]),
          [ref_request sample_body, branch_request sample_body (branch_name 17) (JStr ''abc123'')])"
    by blast
  from a b c f g show ?thesis by blast
qed

lemma failed_not_200 [simp]: "failed m \<noteq> Json 200 body"
  by (simp add: failed_def)

lemma step_e_requests: "snd (step_e rt remote b n) = [pr_request b n]"
  by (simp add: step_e_def Let_def)

lemma step_d_200:
  "step_d rt remote b n fileSHA = (Json 200 body, reqs) \<Longrightarrow>
   reqs = [commit_request b n fileSHA, pr_request b n]"
  using step_e_requests [of rt remote b n]
  by (auto simp: step_d_def Let_def split: fetch_result.splits if_splits prod.splits)

lemma step_c_200:
  "step_c rt remote b n = (Json 200 body, reqs) \<Longrightarrow>
   \<exists>fileSHA. reqs = [file_request b, commit_request b n fileSHA, pr_request b n]"
  by (auto simp: step_c_def Let_def
      split: fetch_result.splits if_splits prod.splits sum.splits dest: step_d_200)

lemma step_b_200:
  "step_b rt remote b n sha = (Json 200 body, reqs) \<Longrightarrow>
   \<exists>fileSHA. reqs = [branch_request b n sha, file_request b, commit_request b n fileSHA,
                     pr_request b n]"
  by (auto simp: step_b_def Let_def branch_conflict_def
      split: fetch_result.splits if_splits prod.splits dest: step_c_200)

lemma step_a_200:
  "step_a rt remote b n = (Json 200 body, reqs) \<Longrightarrow>
   \<exists>sha fileSHA. reqs = [ref_request b, branch_request b n sha, file_request b,
                         commit_request b n fileSHA, pr_request b n]"
  by (auto simp: step_a_def Let_def expired_token_def
      split: fetch_result.splits if_splits prod.splits sum.splits dest!: step_b_200)

lemma step_a_first: "\<exists>rest. snd (step_a rt remote b n) = ref_request b # rest"
  by (auto simp: step_a_def Let_def split: fetch_result.splits if_splits prod.splits sum.splits)

text \<open>
  C6, as amended.  When every field of the body is present, the first request of the
  endpoint reads the head of the branch named \<open>main\<close>, whatever the default branch of
  the repository is.  When the endpoint answers 200 it has sent the five requests of
  steps (a) to (e) in order, and the last of them opens a pull request from the new
  branch to \<open>main\<close>, with the title ``AI Review Suggestion: '' followed by the category
  and with the \<open>explanation\<close> of the body as its description.
\<close>

theorem pull_request_targets_main:
  assumes "all_present b"
  shows "(\<exists>rest. snd (pull_request_handler rt now remote b) = ref_request b # rest)
       \<and> ref_request b
           = \<lparr>verb = GET, url = repo_url b @ ''/git/refs/heads/main'',
              headers = githubApiHeaders b, payload = None\<rparr>
       \<and> (\<forall>body reqs. pull_request_handler rt now remote b = (Json 200 body, reqs) \<longrightarrow>
            (\<exists>sha fileSHA.
               reqs = [ref_request b, branch_request b (branch_name now) sha, file_request b,
                       commit_request b (branch_name now) fileSHA,
                       \<lparr>verb = POST, url = repo_url b @ ''/pulls'', headers = githubApiHeaders b,
                        payload = Some (JObj [(''title'', JStr (''AI Review Suggestion: '' @ category b)),
                                              (''head'', JStr (branch_name now)),
                                              (''base'', JStr ''main''),
                                              (''body'', JStr (explanation b))])\<rparr>]))"
proof -
  have run: "pull_request_handler rt now remote b = step_a rt remote b (branch_name now)"
    using assms by (simp add: pull_request_handler_def all_present_def branch_name_def)
  have first: "\<exists>rest. snd (pull_request_handler rt now remote b) = ref_request b # rest"
    unfolding run by (rule step_a_first)
  have last: "\<exists>sha fileSHA.
               reqs = [ref_request b, branch_request b (branch_name now) sha, file_request b,
                       commit_request b (branch_name now) fileSHA, pr_request b (branch_name now)]"
    if "pull_request_handler rt now remote b = (Json 200 body, reqs)" for body reqs
    using that unfolding run by (rule step_a_200)
  show ?thesis
    using first last by (simp add: ref_request_def pr_request_def)
qed

theorem pull_request_targets_main_witness:
  "all_present sample_body
   \<and> pull_request_handler sample_runtime 17 obliging sample_body
       = (Json 200 (JObj [(''success'', JBool True),
                          (''url'', JStr ''https://github.com/octo/demo/pull/7''),
                          (''number'', JNum (Fin 7)),
                          (''branch'', JStr ''aireviewmate-update-17'')]),
          [ref_request sample_body,
           branch_request sample_body (branch_name 17) (JStr ''abc123''),
           file_request sample_body,
           commit_request sample_body (branch_name 17) (JStr ''def456''),
           pr_request sample_body (branch_name 17)])
   \<and> (\<exists>sha fileSHA.
         snd (pull_request_handler sample_runtime 17 obliging sample_body)
           = [ref_request sample_body, branch_request sample_body (branch_name 17) sha,
              file_request sample_body, commit_request sample_body (branch_name 17) fileSHA,
              \<lparr>verb = POST, url = repo_url sample_body @ ''/pulls'',
               headers = githubApiHeaders sample_body,
               payload = Some (JObj [(''title'', JStr (''AI Review Suggestion: '' @ category sample_body)),
                                     (''head'', JStr (branch_name 17)),
                                     (''base'', JStr ''main''),
                                     (''body'', JStr (explanation sample_body))])\<rparr>])"
proof -
  have a: "all_present sample_body" by code_simp
  have b: "pull_request_handler sample_runtime 17 obliging sample_body
       = (Json 200 (JObj [(''success'', JBool True),
                          (''url'', JStr ''https://github.com/octo/demo/pull/7''),
                          (''number'', JNum (Fin 7)),
                          (''branch'', JStr ''aireviewmate-update-17'')]),
          [ref_request sample_body,
           branch_request sample_body (branch_name 17) (JStr ''abc123''),
           file_request sample_body,
           commit_request sample_body (branch_name 17) (JStr ''def456''),
           pr_request sample_body (branch_name 17)])"
    by code_simp
  from pull_request_targets_main [OF a, of sample_runtime 17 obliging] b
  have "\<exists>sha fileSHA.
         snd (pull_request_handler sample_runtime 17 obliging sample_body)
           = [ref_request sample_body, branch_request sample_body (branch_name 17) sha,
              file_request sample_body, commit_request sample_body (branch_name 17) fileSHA,
              \<lparr>verb = POST, url = repo_url sample_body @ ''/pulls'',
               headers = githubApiHeaders sample_body,
               payload = Some (JObj [(''title'', JStr (''AI Review Suggestion: '' @ category sample_body)),
                                     (''head'', JStr (branch_name 17)),
                                     (''base'', JStr ''main''),
                                     (''body'', JStr (explanation sample_body))])\<rparr>]"
    by (metis snd_conv)
  with a b show ?thesis by blast
qed

text \<open>
  The claim C6 as it is written fails on a repository whose default branch is
  \<open>master\<close>: step (a) asks for the head of \<open>main\<close>, which is not the reference of the
  default branch, the remote answers 404, and the endpoint answers 500 after that one
  request.
\<close>

theorem default_branch_counterexample:
  "pull_request_handler sample_runtime 17 (master_only sample_body) sample_body
     = (Json 500 (JObj [(''error'', JStr ''Failed to create pull request''),
                        (''message'', JStr ''Failed to fetch main branch: 404'')]),
        [ref_request sample_body])
   \<and> url (ref_request sample_body) = ''https://api.github.com/repos/octo/demo/git/refs/heads/main''
   \<and> url (ref_request sample_body) \<noteq> head_ref_url sample_body ''master''"
  by code_simp

section \<open>Properties of the OAuth callback\<close>

lemma startsWith_same_prefix [simp]: "startsWith (a @ s) (a @ p) = startsWith s p"
  by (induction a) auto

lemma startsWith_iff_append: "startsWith (p @ s) p"
  by (induction p) auto

lemma missing_code_text:
  "encodeURIComponent ''Missing authorization code from GitHub''
     = ''Missing%20authorization%20code%20from%20GitHub''"
  by code_simp

lemma failed_text: "oauth_error_text (''GitHub OAuth failed: '' @ e)"
  unfolding oauth_error_text_def by (intro disjI2) (simp add: startsWith_iff_append)

lemma read_prop_truthy:
  "read_prop v k = Inr x \<Longrightarrow> truthy x \<Longrightarrow> \<exists>kvs. v = JObj kvs \<and> x = get_field kvs k"
  by (cases v) auto

lemma configuration_text:
  "oauth_error_text ''GitHub OAuth configuration error: Please check your GITHUB_CLIENT_ID and GITHUB_CLIENT_SECRET in your .env file.''"
  unfolding oauth_error_text_def by (rule disjI2, rule disjI2, rule disjI1, rule refl)

lemma mismatch_text:
  "oauth_error_text ''GitHub OAuth redirect URI mismatch: Please ensure GITHUB_REDIRECT_URI matches your GitHub app settings.''"
  unfolding oauth_error_text_def by (rule disjI2, rule disjI2, rule disjI2, rule disjI1, rule refl)

lemma missing_text: "oauth_error_text ''Missing authorization code from GitHub''"
  unfolding oauth_error_text_def by (rule disjI1, rule refl)

lemma unconfigured_text:
  "oauth_error_text ''GitHub OAuth not configured. Please set GITHUB_CLIENT_ID and GITHUB_CLIENT_SECRET in your .env file.''"
  unfolding oauth_error_text_def by (rule disjI2, rule disjI1, rule refl)

lemma error_redirectI:
  "oauth_error_text m \<Longrightarrow> \<exists>m'. oauth_error_text m' \<and> redirect_error env m = redirect_error env m'"
  by blast

lemma token_error_text:
  "token_error rt env err descr = Inr res \<Longrightarrow>
   \<exists>m. oauth_error_text m \<and> res = redirect_error env m"
  unfolding token_error_def Let_def
  by (auto split: option.splits if_splits
      intro: error_redirectI configuration_text mismatch_text failed_text)

text \<open>
  What the body of the \<open>try\<close> returns: the redirect of a failure, or the redirect with
  the token in a state in which the exchange has succeeded.
\<close>

lemma exchange_result:
  assumes "exchange rt env tokenResponse text_fails = Inr res"
  shows "(\<exists>m. oauth_error_text m \<and> res = redirect_error env m)
       \<or> (\<exists>st txt kvs t. tokenResponse = Answer st txt (Inr (JObj kvs)) \<and> ok st
             \<and> \<not> truthy (get_field kvs ''error'') \<and> truthy (get_field kvs ''access_token'')
             \<and> to_text rt (get_field kvs ''access_token'') = Some t
             \<and> res = Redirect (frontendUrl env @ ''#token='' @ t))"
proof (cases tokenResponse)
  case (Rejected e)
  with assms show ?thesis by (simp add: exchange_def)
next
  case (Answer st stx js)
  show ?thesis
  proof (cases "ok st")
    case False
    with assms Answer have "res = redirect_error env (''GitHub OAuth failed: '' @ show_nat st @ '' '' @ stx)"
      by (auto simp: exchange_def split: option.splits)
    then show ?thesis using failed_text by blast
  next
    case True
    from assms Answer True obtain tokenData err tok where
      js: "js = Inr tokenData" and err: "read_prop tokenData ''error'' = Inr err"
      and tok: "read_prop tokenData ''access_token'' = Inr tok"
      by (auto simp: exchange_def split: sum.splits)
    show ?thesis
    proof (cases "truthy err \<or> \<not> truthy tok")
      case True
      with assms Answer \<open>ok st\<close> js err tok obtain descr where
        "token_error rt env err descr = Inr res"
        by (auto simp: exchange_def split: sum.splits)
      from token_error_text [OF this] show ?thesis by blast
    next
      case False
      then have f: "\<not> truthy err" "truthy tok" by simp_all
      from read_prop_truthy [OF tok f(2)] obtain kvs where
        kvs: "tokenData = JObj kvs" "tok = get_field kvs ''access_token''" by blast
      then have e: "err = get_field kvs ''error''" using err by simp
      from assms Answer \<open>ok st\<close> js err tok f obtain t where
        "to_text rt tok = Some t" "res = Redirect (frontendUrl env @ ''#token='' @ t)"
        by (auto simp: exchange_def split: option.splits)
      then show ?thesis using Answer js kvs e f \<open>ok st\<close> by auto
    qed
  qed
qed

lemma callback_success:
  assumes "granted_token rt env code tokenResponse = Some t"
  shows "callback rt env code tokenResponse text_fails = Redirect (frontendUrl env @ ''#token='' @ t)"
proof -
  from assms have c: "truthy code" "\<not> unset (GITHUB_CLIENT_ID env)" "\<not> unset (GITHUB_CLIENT_SECRET env)"
    by (auto simp: granted_token_def split: if_splits)
  from assms c obtain st stx kvs where a: "tokenResponse = Answer st stx (Inr (JObj kvs))"
    and k: "ok st" "\<not> truthy (get_field kvs ''error'')" "truthy (get_field kvs ''access_token'')"
      "to_text rt (get_field kvs ''access_token'') = Some t"
    by (auto simp: granted_token_def split: fetch_result.splits sum.splits jsval.splits if_splits)
  show ?thesis using c k by (simp add: callback_def exchange_def a)
qed

lemma callback_failure:
  assumes "granted_token rt env code tokenResponse = None"
  shows "\<exists>m. oauth_error_text m
           \<and> callback rt env code tokenResponse text_fails
               = Redirect (frontendUrl env @ ''#error='' @ encodeURIComponent m)"
proof (cases "truthy code \<and> \<not> unset (GITHUB_CLIENT_ID env) \<and> \<not> unset (GITHUB_CLIENT_SECRET env)")
  case False
  then have "callback rt env code tokenResponse text_fails
      = redirect_error env ''Missing authorization code from GitHub''
    \<or> callback rt env code tokenResponse text_fails
      = redirect_error env ''GitHub OAuth not configured. Please set GITHUB_CLIENT_ID and GITHUB_CLIENT_SECRET in your .env file.''"
    by (auto simp: callback_def)
  then show ?thesis
    unfolding redirect_error_def using missing_text unconfigured_text by blast
next
  case True
  show ?thesis
  proof (cases "exchange rt env tokenResponse text_fails")
    case (Inl e)
    with True have "callback rt env code tokenResponse text_fails
        = redirect_error env (''GitHub OAuth failed: '' @ e)"
      by (simp add: callback_def)
    then show ?thesis using failed_text unfolding redirect_error_def by blast
  next
    case (Inr res)
    with True have r: "callback rt env code tokenResponse text_fails = res"
      by (simp add: callback_def)
    from exchange_result [OF Inr] show ?thesis
    proof
      assume "\<exists>m. oauth_error_text m \<and> res = redirect_error env m"
      then show ?thesis using r unfolding redirect_error_def by blast
    next
      assume "\<exists>st txt kvs t. tokenResponse = Answer st txt (Inr (JObj kvs)) \<and> ok st
             \<and> \<not> truthy (get_field kvs ''error'') \<and> truthy (get_field kvs ''access_token'')
             \<and> to_text rt (get_field kvs ''access_token'') = Some t
             \<and> res = Redirect (frontendUrl env @ ''#token='' @ t)"
      then have "granted_token rt env code tokenResponse \<noteq> None"
        using True by (auto simp: granted_token_def)
      with assms show ?thesis by simp
    qed
  qed
qed

text \<open>
  C9.  Whatever the query, the configuration and the token endpoint do, the callback
  answers with a redirect to the front-end, never with a JSON body.  In a state in which
  the exchange has succeeded the redirect is the front-end URL, \<open>#token=\<close> and the
  token.  In every other state it is the front-end URL, \<open>#error=\<close> and the URI-encoded
  text of the error, and no token: without a \<open>code\<close> the fragment is
  \<open>error=Missing%20authorization%20code%20from%20GitHub\<close>; with unset credentials the
  text says that OAuth is not configured; a rejected request, a failure status, a body
  that is no JSON are reported as ``GitHub OAuth failed: '' with the message, or the
  status and its text; a payload with an error or without a token is reported with the
  text chosen from its description.
\<close>

theorem callback_redirects:
  "(case granted_token rt env code tokenResponse of
      Some t \<Rightarrow>
        callback rt env code tokenResponse text_fails = Redirect (frontendUrl env @ ''#token='' @ t)
    | None \<Rightarrow>
        (\<exists>m. oauth_error_text m
           \<and> callback rt env code tokenResponse text_fails
               = Redirect (frontendUrl env @ ''#error='' @ encodeURIComponent m)))
   \<and> (\<not> truthy code \<longrightarrow>
        callback rt env code tokenResponse text_fails
          = Redirect (frontendUrl env @ ''#error=Missing%20authorization%20code%20from%20GitHub''))
   \<and> (truthy code \<and> (unset (GITHUB_CLIENT_ID env) \<or> unset (GITHUB_CLIENT_SECRET env)) \<longrightarrow>
        callback rt env code tokenResponse text_fails
          = Redirect (frontendUrl env @ ''#error='' @ encodeURIComponent
              ''GitHub OAuth not configured. Please set GITHUB_CLIENT_ID and GITHUB_CLIENT_SECRET in your .env file.''))
   \<and> (truthy code \<and> \<not> unset (GITHUB_CLIENT_ID env) \<and> \<not> unset (GITHUB_CLIENT_SECRET env) \<longrightarrow>
        callback rt env code (Rejected e) text_fails
          = Redirect (frontendUrl env @ ''#error='' @ encodeURIComponent (''GitHub OAuth failed: '' @ e))
        \<and> (\<not> ok st \<longrightarrow>
             callback rt env code (Answer st stx js) None
               = Redirect (frontendUrl env @ ''#error='' @ encodeURIComponent
                   (''GitHub OAuth failed: '' @ show_nat st @ '' '' @ stx)))
        \<and> (ok st \<longrightarrow>
             callback rt env code (Answer st stx (Inl e)) text_fails
               = Redirect (frontendUrl env @ ''#error='' @ encodeURIComponent (''GitHub OAuth failed: '' @ e)))
        \<and> (ok st \<and> (truthy (get_field kvs ''error'') \<or> \<not> truthy (get_field kvs ''access_token''))
             \<and> or_else (or_else (get_field kvs ''error_description'') (get_field kvs ''error''))
                  (JStr ''No access token received'') = JStr d \<longrightarrow>
             callback rt env code (Answer st stx (Inr (JObj kvs))) text_fails
               = Redirect (frontendUrl env @ ''#error='' @ encodeURIComponent
                   (if js_includes d ''client_id'' \<or> js_includes d ''client_secret''
                    then ''GitHub OAuth configuration error: Please check your GITHUB_CLIENT_ID and GITHUB_CLIENT_SECRET in your .env file.''
                    else if js_includes d ''redirect_uri''
                    then ''GitHub OAuth redirect URI mismatch: Please ensure GITHUB_REDIRECT_URI matches your GitHub app settings.''
                    else ''GitHub OAuth failed: '' @ d)))
        \<and> (ok st \<and> \<not> truthy (get_field kvs ''error'') \<and> tok \<noteq> []
             \<and> get_field kvs ''access_token'' = JStr tok \<longrightarrow>
             callback rt env code (Answer st stx (Inr (JObj kvs))) text_fails
               = Redirect (frontendUrl env @ ''#token='' @ tok)))"
proof -
  have general: "case granted_token rt env code tokenResponse of
      Some t \<Rightarrow>
        callback rt env code tokenResponse text_fails = Redirect (frontendUrl env @ ''#token='' @ t)
    | None \<Rightarrow>
        (\<exists>m. oauth_error_text m
           \<and> callback rt env code tokenResponse text_fails
               = Redirect (frontendUrl env @ ''#error='' @ encodeURIComponent m))"
    using callback_success [of rt env code tokenResponse _ text_fails]
      callback_failure [of rt env code tokenResponse text_fails]
    by (cases "granted_token rt env code tokenResponse") simp_all
  have missing: "callback rt env code tokenResponse text_fails
          = Redirect (frontendUrl env @ ''#error=Missing%20authorization%20code%20from%20GitHub'')"
    if "\<not> truthy code"
    using that by (simp add: callback_def redirect_error_def missing_code_text)
  have unconfigured: "callback rt env code tokenResponse text_fails
          = Redirect (frontendUrl env @ ''#error='' @ encodeURIComponent
              ''GitHub OAuth not configured. Please set GITHUB_CLIENT_ID and GITHUB_CLIENT_SECRET in your .env file.'')"
    if "truthy code" "unset (GITHUB_CLIENT_ID env) \<or> unset (GITHUB_CLIENT_SECRET env)"
    using that by (simp add: callback_def redirect_error_def)
  have configured: "callback rt env code tr text_fails =
      (case exchange rt env tr text_fails of
         Inr res \<Rightarrow> res
       | Inl message \<Rightarrow> Redirect (frontendUrl env @ ''#error='' @ encodeURIComponent
           (''GitHub OAuth failed: '' @ message)))"
    if "truthy code" "\<not> unset (GITHUB_CLIENT_ID env)" "\<not> unset (GITHUB_CLIENT_SECRET env)"
    for tr text_fails
    using that by (simp add: callback_def redirect_error_def split: sum.splits)
  have rejected: "exchange rt env (Rejected e) text_fails = Inl e"
    by (simp add: exchange_def)
  have status: "exchange rt env (Answer st stx js) None
      = Inr (Redirect (frontendUrl env @ ''#error='' @ encodeURIComponent
                   (''GitHub OAuth failed: '' @ show_nat st @ '' '' @ stx)))"
    if "\<not> ok st"
    using that by (simp add: exchange_def redirect_error_def)
  have nojson: "exchange rt env (Answer st stx (Inl e)) text_fails = Inl e" if "ok st"
    using that by (simp add: exchange_def)
  have payload: "exchange rt env (Answer st stx (Inr (JObj kvs))) text_fails
      = Inr (Redirect (frontendUrl env @ ''#error='' @ encodeURIComponent
                   (if js_includes d ''client_id'' \<or> js_includes d ''client_secret''
                    then ''GitHub OAuth configuration error: Please check your GITHUB_CLIENT_ID and GITHUB_CLIENT_SECRET in your .env file.''
                    else if js_includes d ''redirect_uri''
                    then ''GitHub OAuth redirect URI mismatch: Please ensure GITHUB_REDIRECT_URI matches your GitHub app settings.''
                    else ''GitHub OAuth failed: '' @ d)))"
    if "ok st" "truthy (get_field kvs ''error'') \<or> \<not> truthy (get_field kvs ''access_token'')"
       "or_else (or_else (get_field kvs ''error_description'') (get_field kvs ''error''))
                  (JStr ''No access token received'') = JStr d"
  proof -
    have "token_error rt env (get_field kvs ''error'') (get_field kvs ''error_description'')
      = Inr (redirect_error env
                   (if js_includes d ''client_id'' \<or> js_includes d ''client_secret''
                    then ''GitHub OAuth configuration error: Please check your GITHUB_CLIENT_ID and GITHUB_CLIENT_SECRET in your .env file.''
                    else if js_includes d ''redirect_uri''
                    then ''GitHub OAuth redirect URI mismatch: Please ensure GITHUB_REDIRECT_URI matches your GitHub app settings.''
                    else ''GitHub OAuth failed: '' @ d))"
      unfolding token_error_def Let_def that(3) by simp
    then show ?thesis
      using that(1,2) by (auto simp: exchange_def redirect_error_def)
  qed
  have granted: "exchange rt env (Answer st stx (Inr (JObj kvs))) text_fails
      = Inr (Redirect (frontendUrl env @ ''#token='' @ tok))"
    if "ok st" "\<not> truthy (get_field kvs ''error'')" "tok \<noteq> []"
       "get_field kvs ''access_token'' = JStr tok"
    using that by (simp add: exchange_def)
  show ?thesis
    using general missing unconfigured
    by (simp add: configured rejected status nojson payload granted)
qed

theorem callback_redirects_witness:
  "granted_token sample_runtime sample_env (JStr ''code-1'')
       (Answer 200 ''OK'' (Inr (JObj [(''access_token'', JStr ''gho_abc'')]))) = Some ''gho_abc''
   \<and> callback sample_runtime sample_env (JStr ''code-1'')
        (Answer 200 ''OK'' (Inr (JObj [(''access_token'', JStr ''gho_abc'')]))) None
       = Redirect ''https://app.example#token=gho_abc''
   \<and> \<not> truthy JUndefined
   \<and> callback sample_runtime sample_env JUndefined (Rejected ''unreachable'') None
       = Redirect ''https://app.example#error=Missing%20authorization%20code%20from%20GitHub''
   \<and> truthy (JStr ''code-1'') \<and> \<not> unset (GITHUB_CLIENT_ID sample_env)
   \<and> \<not> unset (GITHUB_CLIENT_SECRET sample_env) \<and> \<not> ok 503 \<and> ok 200
   \<and> callback sample_runtime sample_env (JStr ''code-1'')
        (Answer 503 ''Service Unavailable'' (Inl ''no body'')) None
       = Redirect ''https://app.example#error=GitHub%20OAuth%20failed%3A%20503%20Service%20Unavailable''
   \<and> callback sample_runtime sample_env (JStr ''code-1'')
        (Answer 200 ''OK'' (Inr (JObj [(''error'', JStr ''bad_verification_code''),
           (''error_description'', JStr ''The code passed is incorrect or expired.'')]))) None
       = Redirect ''https://app.example#error=GitHub%20OAuth%20failed%3A%20The%20code%20passed%20is%20incorrect%20or%20expired.''"
proof -
  let ?good = "Answer 200 ''OK'' (Inr (JObj [(''access_token'', JStr ''gho_abc'')]))"
  let ?bad = "[(''error'', JStr ''bad_verification_code''),
           (''error_description'', JStr ''The code passed is incorrect or expired.'')]"
  let ?d = "''The code passed is incorrect or expired.''"
  have g: "granted_token sample_runtime sample_env (JStr ''code-1'') ?good = Some ''gho_abc''"
    by code_simp
  have front: "frontendUrl sample_env = ''https://app.example''"
    by (simp add: frontendUrl_def sample_env_def)
  have w1: "callback sample_runtime sample_env (JStr ''code-1'') ?good None
       = Redirect ''https://app.example#token=gho_abc''"
    using callback_redirects [where rt = sample_runtime and env = sample_env
        and code = "JStr ''code-1''" and tokenResponse = ?good and text_fails = None,
        THEN conjunct1]
    unfolding g by (simp add: front)
  have m: "\<not> truthy JUndefined" by simp
  have w2: "callback sample_runtime sample_env JUndefined (Rejected ''unreachable'') None
       = Redirect ''https://app.example#error=Missing%20authorization%20code%20from%20GitHub''"
    using callback_redirects [where rt = sample_runtime and env = sample_env
        and code = JUndefined and tokenResponse = "Rejected ''unreachable''" and text_fails = None,
        THEN conjunct2, THEN conjunct1, THEN mp, OF m]
    by (simp add: front)
  have c: "truthy (JStr ''code-1'') \<and> \<not> unset (GITHUB_CLIENT_ID sample_env)
        \<and> \<not> unset (GITHUB_CLIENT_SECRET sample_env)"
    by (simp add: unset_def sample_env_def)
  have s: "\<not> ok 503" "ok 200" by (simp_all add: ok_def)
  have e3: "Redirect (frontendUrl sample_env @ ''#error='' @ encodeURIComponent
                   (''GitHub OAuth failed: '' @ show_nat 503 @ '' '' @ ''Service Unavailable''))
      = Redirect ''https://app.example#error=GitHub%20OAuth%20failed%3A%20503%20Service%20Unavailable''"
    by code_simp
  have w3: "callback sample_runtime sample_env (JStr ''code-1'')
        (Answer 503 ''Service Unavailable'' (Inl ''no body'')) None
       = Redirect ''https://app.example#error=GitHub%20OAuth%20failed%3A%20503%20Service%20Unavailable''"
    using callback_redirects [where rt = sample_runtime and env = sample_env
        and code = "JStr ''code-1''" and text_fails = None
        and st = 503 and stx = "''Service Unavailable''" and js = "Inl ''no body''",
        THEN conjunct2, THEN conjunct2, THEN conjunct2, THEN mp, OF c,
        THEN conjunct2, THEN conjunct1, THEN mp, OF s(1)] e3
    by (rule trans)
  have p: "ok 200 \<and> (truthy (get_field ?bad ''error'') \<or> \<not> truthy (get_field ?bad ''access_token''))
             \<and> or_else (or_else (get_field ?bad ''error_description'') (get_field ?bad ''error''))
                  (JStr ''No access token received'') = JStr ?d"
    by (simp add: ok_def get_field_def or_else_def)
  have e4: "Redirect (frontendUrl sample_env @ ''#error='' @ encodeURIComponent
                   (if js_includes ?d ''client_id'' \<or> js_includes ?d ''client_secret''
                    then ''GitHub OAuth configuration error: Please check your GITHUB_CLIENT_ID and GITHUB_CLIENT_SECRET in your .env file.''
                    else if js_includes ?d ''redirect_uri''
                    then ''GitHub OAuth redirect URI mismatch: Please ensure GITHUB_REDIRECT_URI matches your GitHub app settings.''
                    else ''GitHub OAuth failed: '' @ ?d))
      = Redirect ''https://app.example#error=GitHub%20OAuth%20failed%3A%20The%20code%20passed%20is%20incorrect%20or%20expired.''"
    by code_simp
  have w4: "callback sample_runtime sample_env (JStr ''code-1'')
        (Answer 200 ''OK'' (Inr (JObj ?bad))) None
       = Redirect ''https://app.example#error=GitHub%20OAuth%20failed%3A%20The%20code%20passed%20is%20incorrect%20or%20expired.''"
    using callback_redirects [where rt = sample_runtime and env = sample_env
        and code = "JStr ''code-1''" and text_fails = None
        and st = 200 and stx = "''OK''" and kvs = ?bad and d = ?d,
        THEN conjunct2, THEN conjunct2, THEN conjunct2, THEN mp, OF c,
        THEN conjunct2, THEN conjunct2, THEN conjunct2, THEN conjunct1, THEN mp, OF p] e4
    by (rule trans)
  from g w1 m w2 c s w3 w4 show ?thesis by blast
qed

section \<open>Properties of the review client's parsing\<close>

lemma parse_reply_None_iff:
  "parse_reply rt text = None \<longleftrightarrow>
     extract_json text = None \<or> (\<exists>t. extract_json text = Some t \<and> json_parse rt t = None)"
  by (auto simp: parse_reply_def split: option.splits)

lemma classify_parse_failure:
  "classify rt cfg parse_failure = ''The Reaper could not be summoned: '' @ parse_failure"
  by (simp add: classify_def parse_failure_def)

text \<open>
  C4.  When the key is configured and the provider replies with a text from which no
  JSON object is parsed (nothing can be cut out of it, or what is cut out does not
  parse), \<open>reviewCode\<close> fails with the parse error, wrapped by the outer handler as
  ``The Reaper could not be summoned: Failed to parse AI response. \<dots>''.  It returns no
  result at all, and in particular not the fallback object it built.
\<close>

theorem unparsable_reply_fails:
  assumes "\<not> key_missing cfg"
      and "generate language code = Replied text"
      and "parse_reply rt text = None"
  shows "reviewCode rt cfg generate code language
           = Inl (''The Reaper could not be summoned: '' @ parse_failure)
         \<and> reviewCode rt cfg generate code language \<noteq> Inr fallback
         \<and> (\<forall>result. reviewCode rt cfg generate code language \<noteq> Inr result)"
  using assms by (simp add: reviewCode_def classify_parse_failure)

theorem unparsable_reply_fails_witness:
  "\<not> key_missing sample_config
   \<and> always (Replied ''I cannot review this.'') ''python'' ''x = 1'' = Replied ''I cannot review this.''
   \<and> parse_reply sample_runtime ''I cannot review this.'' = None
   \<and> reviewCode sample_runtime sample_config (always (Replied ''I cannot review this.'')) ''x = 1'' ''python''
       = Inl ''The Reaper could not be summoned: Failed to parse AI response. Please ensure your code is valid and try again.''"
proof -
  have a: "\<not> key_missing sample_config" by code_simp
  have b: "always (Replied ''I cannot review this.'') ''python'' ''x = 1'' = Replied ''I cannot review this.''"
    by (simp add: always_def)
  have c: "parse_reply sample_runtime ''I cannot review this.'' = None" by code_simp
  have d: "reviewCode sample_runtime sample_config (always (Replied ''I cannot review this.'')) ''x = 1'' ''python''
       = Inl ''The Reaper could not be summoned: Failed to parse AI response. Please ensure your code is valid and try again.''"
    using unparsable_reply_fails [where generate = "always (Replied ''I cannot review this.'')"
        and language = "''python''" and code = "''x = 1''", OF a b c]
    by (simp add: parse_failure_def)
  from a b c d show ?thesis by blast
qed

section \<open>Properties of the review client's post-processing\<close>

lemma get_set_field [simp]:
  "get_field (set_field k v p) k' = (if k' = k then v else get_field p k')"
  by (simp add: get_field_def set_field_def update_conv')

lemma exact_int_of_nat: "m \<le> 2 ^ 53 \<Longrightarrow> exact_int (of_nat m)"
proof -
  assume "m \<le> 2 ^ 53"
  then have "(of_nat m :: rat) \<le> of_nat (2 ^ 53)" by (simp only: of_nat_le_iff)
  then show ?thesis by (simp add: exact_int_def)
qed

lemma js_times_of_nat:
  "n * k \<le> 2 ^ 53 \<Longrightarrow> n \<le> 2 ^ 53 \<Longrightarrow>
   js_times rt (Fin (of_nat n)) k = Fin (of_nat (n * k))"
  using exact_int_of_nat [of n] exact_int_of_nat [of "n * k"] by simp

lemma js_add_of_nat:
  "a \<le> 2 ^ 53 \<Longrightarrow> b \<le> 2 ^ 53 \<Longrightarrow> a + b \<le> 2 ^ 53 \<Longrightarrow>
   js_add rt (Fin (of_nat a)) (Fin (of_nat b)) = Fin (of_nat (a + b))"
  using exact_int_of_nat [of a] exact_int_of_nat [of b] exact_int_of_nat [of "a + b"] by simp

lemma js_min_of_nat: "js_min (Fin 100) (Fin (of_nat t)) = Fin (of_nat (min 100 t))"
  by (simp add: min_def)

lemma floor_half: "\<lfloor>(of_nat m :: rat) + 1 / 2\<rfloor> = int m"
  by (rule floor_unique) simp_all

lemma clamp_of_nat: "m \<le> 100 \<Longrightarrow> clamp (Fin (of_nat m)) = Fin (of_nat m)"
  by (simp add: clamp_def floor_half)

lemma count_of_array:
  "or_else (JNum (Fin (of_nat n))) (JNum (Fin 0)) = JNum (Fin (of_nat n))"
  by (simp add: or_else_def)

text \<open>The curse level computed from two lists of bounded length.\<close>

lemma curse_of_lists:
  assumes "length es < 2 ^ 32" and "length ws < 2 ^ 32"
  shows "curse_of_counts rt (JNum (Fin (of_nat (length es)))) (JNum (Fin (of_nat (length ws))))
           = Inr (Fin (of_nat (min 100 (length es * 30 + length ws * 10))))"
proof -
  have e: "length es * 30 \<le> 2 ^ 53" "length es \<le> 2 ^ 53" using assms(1) by simp_all
  have w: "length ws * 10 \<le> 2 ^ 53" "length ws \<le> 2 ^ 53" using assms(2) by simp_all
  have s: "length es * 30 + length ws * 10 \<le> 2 ^ 53" using assms by simp
  show ?thesis
    by (simp only: curse_of_counts_def to_number.simps option.case
        js_times_of_nat [OF e] js_times_of_nat [OF w] js_add_of_nat [OF e(1) w(1) s]
        js_min_of_nat)
qed

text \<open>What each stage of the post-processing leaves in a field.\<close>

lemma get_default_lists:
  "get_field (default_lists p) k =
     (if (k = ''errors'' \<or> k = ''warnings'' \<or> k = ''suggestions'') \<and> \<not> truthy (get_field p k)
      then JArr [] else get_field p k)"
  by (auto simp: default_lists_def Let_def or_else_def)

lemma get_default_new_fields:
  "get_field (default_new_fields p) k =
     (if k = ''changes'' then array_or_empty (get_field p ''changes'')
      else if k = ''updatedCode'' then or_else (get_field p ''updatedCode'') JNull
      else get_field p k)"
  by (auto simp: default_new_fields_def Let_def array_or_empty_def)

lemma get_ensure_verdict:
  "get_field (ensure_verdict p) k =
     (if k = ''verdict'' \<and> (\<not> truthy (get_field p ''verdict'') \<or> \<not> is_string (get_field p ''verdict''))
      then JStr default_verdict else get_field p k)"
  by (auto simp: ensure_verdict_def)

lemma get_ensure_arrays:
  "get_field (ensure_arrays p) k =
     (if k = ''errors'' \<or> k = ''warnings'' \<or> k = ''suggestions''
      then array_or_empty (get_field p k) else get_field p k)"
  by (auto simp: ensure_arrays_def Let_def)

lemma isArray_array_or_empty [simp]: "isArray (array_or_empty v)"
  by (simp add: array_or_empty_def)

lemma array_or_empty_array [simp]: "array_or_empty (JArr xs) = JArr xs"
  by (simp add: array_or_empty_def)

lemma derive_curse_result:
  assumes "derive_curse rt q = Inr p'"
  shows "(\<exists>c. get_field p' ''curseLevel'' = JNum c)
         \<and> (\<forall>k. k = ''curseLevel'' \<or> get_field p' k = get_field q k)"
proof (cases "is_number (get_field q ''curseLevel'')")
  case True
  then have "p' = q" using assms by (simp add: derive_curse_def)
  moreover obtain c where "get_field q ''curseLevel'' = JNum c"
    using True by (cases "get_field q ''curseLevel''") auto
  ultimately show ?thesis by auto
next
  case False
  then obtain c where "p' = set_field ''curseLevel'' (JNum c) q"
    using assms by (auto simp: derive_curse_def Let_def split: sum.splits)
  then show ?thesis by auto
qed

lemma clamp_curse_result:
  assumes "get_field q ''curseLevel'' = JNum c"
  shows "clamp_curse rt q = Inr (set_field ''curseLevel'' (JNum (clamp c)) q)"
  using assms by (simp add: clamp_curse_def)

text \<open>
  The shape of every result of the post-processing: the four lists are lists, the
  verdict is a string that is not empty, \<open>updatedCode\<close> is \<open>null\<close> unless the provider
  gave a truthy one, and the curse level is the clamped value of some number.
\<close>

lemma post_process_shape:
  assumes "post_process rt p = Inr r"
  shows "isArray (get_field r ''errors'') \<and> isArray (get_field r ''warnings'')
         \<and> isArray (get_field r ''suggestions'') \<and> isArray (get_field r ''changes'')
         \<and> get_field r ''updatedCode'' = or_else (get_field p ''updatedCode'') JNull
         \<and> is_string (get_field r ''verdict'') \<and> truthy (get_field r ''verdict'')
         \<and> (\<exists>c. get_field r ''curseLevel'' = JNum (clamp c))"
proof -
  let ?q = "default_new_fields (default_lists p)"
  obtain p' where d: "derive_curse rt ?q = Inr p'"
    and r: "clamp_curse rt (ensure_arrays (ensure_verdict p')) = Inr r"
    using assms by (auto simp: post_process_def split: sum.splits)
  from derive_curse_result [OF d] obtain c where c: "get_field p' ''curseLevel'' = JNum c"
    and same: "\<And>k. k \<noteq> ''curseLevel'' \<Longrightarrow> get_field p' k = get_field ?q k"
    by blast
  have "get_field (ensure_arrays (ensure_verdict p')) ''curseLevel'' = JNum c"
    using c by (simp add: get_ensure_arrays get_ensure_verdict)
  from clamp_curse_result [OF this, of rt] r
  have r_eq: "r = set_field ''curseLevel'' (JNum (clamp c)) (ensure_arrays (ensure_verdict p'))"
    by simp
  have v: "is_string (get_field r ''verdict'') \<and> truthy (get_field r ''verdict'')"
    unfolding r_eq
    by (cases "get_field p' ''verdict''")
       (auto simp: get_ensure_arrays get_ensure_verdict default_verdict_def)
  have u: "get_field r ''updatedCode'' = or_else (get_field p ''updatedCode'') JNull"
    unfolding r_eq
    by (simp add: get_ensure_arrays get_ensure_verdict same get_default_new_fields
        get_default_lists)
  have ch: "isArray (get_field r ''changes'')"
    unfolding r_eq
    by (simp add: get_ensure_arrays get_ensure_verdict same get_default_new_fields)
  have l: "isArray (get_field r ''errors'') \<and> isArray (get_field r ''warnings'')
         \<and> isArray (get_field r ''suggestions'')"
    unfolding r_eq by (simp add: get_ensure_arrays)
  have "get_field r ''curseLevel'' = JNum (clamp c)"
    unfolding r_eq by simp
  with v u ch l show ?thesis by blast
qed

text \<open>A clamped number is \<open>NaN\<close> or an integer from 0 to 100.\<close>

lemma clamp_range:
  "clamp c = NaN \<or> (\<exists>k::int. clamp c = Fin (of_int k) \<and> 0 \<le> k \<and> k \<le> 100)"
proof (cases c)
  case (Fin a)
  let ?k = "max 0 (min 100 \<lfloor>a + 1 / 2\<rfloor>)"
  have "clamp c = Fin (of_int ?k)"
    using Fin by (simp add: clamp_def min_def max_def)
  moreover have "0 \<le> ?k \<and> ?k \<le> 100" by simp
  ultimately show ?thesis by blast
next
  case PosInf
  then have "clamp c = Fin (of_int 100)" by (simp add: clamp_def)
  then show ?thesis by force
next
  case NegInf
  then have "clamp c = Fin (of_int 0)" by (simp add: clamp_def)
  then show ?thesis by force
next
  case NaN
  then show ?thesis by (simp add: clamp_def)
qed

lemma clamp_NaN_iff: "clamp c = NaN \<longleftrightarrow> c = NaN"
  by (cases c) (simp_all add: clamp_def)

text \<open>The endpoint leaves a result of that shape as it is.\<close>

lemma renormalize_id:
  assumes "isArray (get_field r ''errors'')" and "isArray (get_field r ''warnings'')"
      and "isArray (get_field r ''suggestions'')" and "is_number (get_field r ''curseLevel'')"
      and "is_string (get_field r ''verdict'')" and "truthy (get_field r ''verdict'')"
  shows "renormalize rt r = Inr r"
  using assms by (simp add: renormalize_def)

lemma post_process_renormalize:
  "post_process rt p = Inr r \<Longrightarrow> renormalize rt r = Inr r"
  using post_process_shape [of rt p r] by (auto intro!: renormalize_id)

lemma listed_field:
  "listed v = Some xs \<Longrightarrow> (if \<not> truthy v then JArr [] else v) = JArr xs"
  by (cases v) (auto simp: listed_def split: if_splits)

text \<open>
  C3.  When the parsed object has no numeric \<open>curseLevel\<close>, and its \<open>errors\<close> and
  \<open>warnings\<close> are lists (an array, or the empty list of a missing field) of fewer than
  \<open>2^32\<close> elements, as every array of the language is, the client returns a result
  with these two lists and the curse level \<open>min(100, 30 * errors + 10 * warnings)\<close>, the
  endpoint passes that result on unchanged, and the curse level lies between 0 and 100.
\<close>

theorem curse_level_from_counts:
  assumes "\<not> is_number (get_field p ''curseLevel'')"
      and "listed (get_field p ''errors'') = Some es"
      and "listed (get_field p ''warnings'') = Some ws"
      and "length es < 2 ^ 32" and "length ws < 2 ^ 32"
  shows "\<exists>r. post_process rt p = Inr r \<and> renormalize rt r = Inr r
           \<and> get_field r ''errors'' = JArr es \<and> get_field r ''warnings'' = JArr ws
           \<and> get_field r ''curseLevel''
               = JNum (Fin (of_nat (min 100 (length es * 30 + length ws * 10))))
           \<and> (0::rat) \<le> of_nat (min 100 (length es * 30 + length ws * 10))
           \<and> of_nat (min 100 (length es * 30 + length ws * 10)) \<le> (100::rat)"
proof -
  let ?q = "default_new_fields (default_lists p)"
  let ?m = "min 100 (length es * 30 + length ws * 10)"
  let ?p' = "set_field ''curseLevel'' (JNum (Fin (of_nat ?m))) ?q"
  let ?r = "set_field ''curseLevel'' (JNum (Fin (of_nat ?m))) (ensure_arrays (ensure_verdict ?p'))"
  have ge: "get_field ?q ''errors'' = JArr es"
    using listed_field [OF assms(2)] by (simp add: get_default_new_fields get_default_lists)
  have gw: "get_field ?q ''warnings'' = JArr ws"
    using listed_field [OF assms(3)] by (simp add: get_default_new_fields get_default_lists)
  have gc: "\<not> is_number (get_field ?q ''curseLevel'')"
    using assms(1) by (simp add: get_default_new_fields get_default_lists)
  have d: "derive_curse rt ?q = Inr ?p'"
    by (simp add: derive_curse_def gc ge gw count_of_array curse_of_lists [OF assms(4,5)] Let_def)
  have "get_field (ensure_arrays (ensure_verdict ?p')) ''curseLevel'' = JNum (Fin (of_nat ?m))"
    by (simp add: get_ensure_arrays get_ensure_verdict)
  from clamp_curse_result [OF this, of rt]
  have c: "clamp_curse rt (ensure_arrays (ensure_verdict ?p')) = Inr ?r"
    by (simp add: clamp_of_nat)
  have run: "post_process rt p = Inr ?r"
    by (simp add: post_process_def d c)
  have "get_field ?r ''errors'' = JArr es" "get_field ?r ''warnings'' = JArr ws"
    by (simp_all add: get_ensure_arrays get_ensure_verdict ge gw)
  moreover have "get_field ?r ''curseLevel'' = JNum (Fin (of_nat ?m))"
    by simp
  moreover have "renormalize rt ?r = Inr ?r"
    using run by (rule post_process_renormalize)
  moreover have "(0::rat) \<le> of_nat ?m" by simp
  moreover have "of_nat ?m \<le> (100::rat)"
  proof -
    have "?m \<le> 100" by simp
    then have "(of_nat ?m :: rat) \<le> of_nat 100" by (simp only: of_nat_le_iff)
    then show ?thesis by simp
  qed
  ultimately show ?thesis using run by blast
qed

theorem curse_level_from_counts_witness:
  "\<not> is_number (get_field [(''errors'', JArr [JNull, JNull]), (''warnings'', JArr [JNull])] ''curseLevel'')
   \<and> listed (get_field [(''errors'', JArr [JNull, JNull]), (''warnings'', JArr [JNull])] ''errors'')
       = Some [JNull, JNull]
   \<and> listed (get_field [(''errors'', JArr [JNull, JNull]), (''warnings'', JArr [JNull])] ''warnings'')
       = Some [JNull]
   \<and> length [JNull, JNull] < 2 ^ 32 \<and> length [JNull] < 2 ^ 32
   \<and> (\<exists>r. post_process sample_runtime [(''errors'', JArr [JNull, JNull]), (''warnings'', JArr [JNull])] = Inr r
          \<and> renormalize sample_runtime r = Inr r
          \<and> get_field r ''curseLevel'' = JNum (Fin 70))"
proof -
  let ?p = "[(''errors'', JArr [JNull, JNull]), (''warnings'', JArr [JNull])]"
  have a: "\<not> is_number (get_field ?p ''curseLevel'')" by (simp add: get_field_def)
  have b: "listed (get_field ?p ''errors'') = Some [JNull, JNull]"
    by (simp add: get_field_def listed_def)
  have c: "listed (get_field ?p ''warnings'') = Some [JNull]"
    by (simp add: get_field_def listed_def)
  have d: "length [JNull, JNull] < 2 ^ 32" by simp
  have e: "length [JNull] < 2 ^ 32" by simp
  from curse_level_from_counts [OF a b c d e, of sample_runtime]
  have "\<exists>r. post_process sample_runtime ?p = Inr r \<and> renormalize sample_runtime r = Inr r
          \<and> get_field r ''curseLevel'' = JNum (Fin 70)"
    by auto
  with a b c d e show ?thesis by blast
qed

text \<open>
  C1 fails on the reply \<open>{"errors":{"length":{}}}\<close>.  The count of the errors is read
  from \<open>errors.length\<close> before \<open>errors\<close> is replaced by a list, the empty object found
  there is no number, and the curse level becomes \<open>NaN\<close>, which the clamp does not
  repair and the endpoint, seeing a value of type number, passes on: the response is 200
  with a curse level that is no integer from 0 to 100.
\<close>

theorem curse_level_not_a_number:
  "post_process rt stray_object
     = Inr [(''errors'', JArr []), (''warnings'', JArr []), (''suggestions'', JArr []),
            (''updatedCode'', JNull), (''changes'', JArr []), (''curseLevel'', JNum NaN),
            (''verdict'', JStr ''The code has been analyzed by The Code Reaper.'')]
   \<and> review_handler stray_runtime sample_config (always (Replied stray_reply))
        (JStr ''x = 1'') (JStr ''python'')
     = (Json 200 (JObj [(''errors'', JArr []), (''warnings'', JArr []), (''suggestions'', JArr []),
            (''updatedCode'', JNull), (''changes'', JArr []), (''curseLevel'', JNum NaN),
            (''verdict'', JStr ''The code has been analyzed by The Code Reaper.'')]),
        [ReviewCode ''x = 1'' ''python''])"
  by code_simp

section \<open>Properties of the extraction\<close>

lemma startsWith_iff: "startsWith s p \<longleftrightarrow> (\<exists>t. s = p @ t)"
  by (induction s p rule: startsWith.induct) auto

lemma dropWhile_spaces: "list_all is_space w \<Longrightarrow> \<not> is_space c \<Longrightarrow> dropWhile is_space (w @ c # s) = c # s"
  by (induction w) auto

lemma split_spaces: "\<exists>w. s = w @ dropWhile is_space s \<and> list_all is_space w"
proof
  show "s = takeWhile is_space s @ dropWhile is_space s \<and> list_all is_space (takeWhile is_space s)"
    by (simp add: list_all_iff) (meson set_takeWhileD)
qed

lemma brace_not_space [simp]: "\<not> is_space (CHR ''{'')"
  by (simp add: is_space_def)

lemma backtick_not_space [simp]: "\<not> is_space (CHR ''`'')"
  by (simp add: is_space_def)

text \<open>The greedy search finds the longest prefix that closes, and finds one if any closes.\<close>

lemma longest_upto_sound:
  "longest_upto good s = Some p \<Longrightarrow> \<exists>body r. p = body @ [CHR ''}''] \<and> s = p @ r \<and> good r"
proof (induction s arbitrary: p)
  case Nil
  then show ?case by simp
next
  case (Cons c cs)
  show ?case
  proof (cases "longest_upto good cs")
    case None
    with Cons.prems have "c = CHR ''}''" "good cs" "p = [c]"
      by (auto split: if_splits)
    then show ?thesis by auto
  next
    case (Some p')
    with Cons.prems have p: "p = c # p'" by simp
    from Cons.IH [OF Some] obtain body r where "p' = body @ [CHR ''}'']" "cs = p' @ r" "good r"
      by blast
    with p have "p = (c # body) @ [CHR ''}''] \<and> c # cs = p @ r \<and> good r" by simp
    then show ?thesis by blast
  qed
qed

lemma longest_upto_complete: "good r \<Longrightarrow> longest_upto good (a @ CHR ''}'' # r) \<noteq> None"
  by (induction a) (auto split: option.splits)

lemma closes_sound: "closes r \<Longrightarrow> \<exists>ws post. r = ws @ ''```'' @ post \<and> list_all is_space ws"
proof -
  assume "closes r"
  then obtain post where "dropWhile is_space r = ''```'' @ post"
    unfolding closes_def startsWith_iff by blast
  moreover obtain w where "r = w @ dropWhile is_space r" "list_all is_space w"
    using split_spaces by blast
  ultimately show ?thesis by metis
qed

lemma closes_complete: "list_all is_space ws \<Longrightarrow> closes (ws @ ''```'' @ post)"
  by (simp add: closes_def dropWhile_spaces)

lemma braced_then_fence_sound:
  assumes "braced_then_fence q = Some g"
  shows "\<exists>w ws post. q = w @ g @ ws @ ''```'' @ post \<and> list_all is_space w \<and> braced g
           \<and> list_all is_space ws"
proof -
  obtain w where w: "q = w @ dropWhile is_space q" "list_all is_space w"
    using split_spaces by blast
  from assms obtain cs p where d: "dropWhile is_space q = CHR ''{'' # cs"
    and p: "longest_upto closes cs = Some p" and g: "g = CHR ''{'' # p"
    by (auto simp: braced_then_fence_def split: list.splits if_splits)
  from longest_upto_sound [OF p] obtain body r where
    r: "p = body @ [CHR ''}'']" "cs = p @ r" "closes r" by blast
  from closes_sound [OF r(3)] obtain ws post where
    c: "r = ws @ ''```'' @ post" "list_all is_space ws" by blast
  have "q = w @ g @ ws @ ''```'' @ post"
    using w(1) d g r(2) c(1) by simp
  moreover have "braced g" using g r(1) by (auto simp: braced_def)
  ultimately show ?thesis using w(2) c(2) by blast
qed

lemma braced_then_fence_complete:
  assumes "list_all is_space w" and "braced g" and "list_all is_space ws"
  shows "braced_then_fence (w @ g @ ws @ ''```'' @ post) \<noteq> None"
proof -
  from assms(2) obtain body where g: "g = CHR ''{'' # body @ [CHR ''}'']"
    by (auto simp: braced_def)
  have "dropWhile is_space (w @ g @ ws @ ''```'' @ post)
          = CHR ''{'' # body @ CHR ''}'' # (ws @ ''```'' @ post)"
    using dropWhile_spaces [OF assms(1), of "CHR ''{''"] g by simp
  moreover have "longest_upto closes (body @ CHR ''}'' # (ws @ ''```'' @ post)) \<noteq> None"
    using closes_complete [OF assms(3)] by (rule longest_upto_complete)
  ultimately show ?thesis by (auto simp: braced_then_fence_def)
qed

lemma fence_here_sound:
  assumes "fence_here s = Some g"
  shows "\<exists>tag ws post. s = ''```'' @ tag @ g @ ws @ ''```'' @ post
           \<and> (list_all is_space tag \<or> (\<exists>w. tag = ''json'' @ w \<and> list_all is_space w))
           \<and> braced g \<and> list_all is_space ws"
proof -
  from assms obtain r where s: "s = ''```'' @ r"
    by (auto simp: fence_here_def startsWith_iff split: if_splits)
  then have r: "drop 3 s = r" by simp
  have "braced_then_fence r = Some g \<or> (\<exists>r'. r = ''json'' @ r' \<and> braced_then_fence r' = Some g)"
  proof (cases "startsWith r ''json''")
    case True
    then obtain r' where r': "r = ''json'' @ r'" unfolding startsWith_iff by blast
    then have "drop 4 r = r'" by simp
    with assms s r True show ?thesis
      using r' by (auto simp: fence_here_def Let_def split: option.splits)
  next
    case False
    with assms s r show ?thesis by (auto simp: fence_here_def Let_def)
  qed
  then show ?thesis
  proof
    assume "braced_then_fence r = Some g"
    from braced_then_fence_sound [OF this] obtain w ws post where
      "r = w @ g @ ws @ ''```'' @ post" "list_all is_space w" "braced g" "list_all is_space ws"
      by blast
    with s show ?thesis by auto
  next
    assume "\<exists>r'. r = ''json'' @ r' \<and> braced_then_fence r' = Some g"
    then obtain r' where r': "r = ''json'' @ r'" "braced_then_fence r' = Some g" by blast
    from braced_then_fence_sound [OF r'(2)] obtain w ws post where
      w: "r' = w @ g @ ws @ ''```'' @ post" "list_all is_space w" "braced g" "list_all is_space ws"
      by blast
    have "s = ''```'' @ (''json'' @ w) @ g @ ws @ ''```'' @ post"
      using s r'(1) w(1) by simp
    with w show ?thesis by blast
  qed
qed

lemma fence_here_complete:
  assumes "list_all is_space tag \<or> (\<exists>w. tag = ''json'' @ w \<and> list_all is_space w)"
      and "braced g" and "list_all is_space ws"
  shows "fence_here (''```'' @ tag @ g @ ws @ ''```'' @ post) \<noteq> None"
proof -
  let ?r = "tag @ g @ ws @ ''```'' @ post"
  have s: "startsWith (''```'' @ ?r) ''```''" "drop 3 (''```'' @ ?r) = ?r"
    by (simp_all add: startsWith_iff)
  from assms(1) show ?thesis
  proof
    assume t: "list_all is_space tag"
    then have "braced_then_fence ?r \<noteq> None"
      using assms(2,3) by (rule braced_then_fence_complete)
    then show ?thesis
      unfolding fence_here_def using s by (auto simp: Let_def split: option.splits)
  next
    assume "\<exists>w. tag = ''json'' @ w \<and> list_all is_space w"
    then obtain w where w: "tag = ''json'' @ w" "list_all is_space w" by blast
    have j: "startsWith ?r ''json''" "drop 4 ?r = w @ g @ ws @ ''```'' @ post"
      using w(1) by (simp_all add: startsWith_iff)
    have "braced_then_fence (w @ g @ ws @ ''```'' @ post) \<noteq> None"
      using w(2) assms(2,3) by (rule braced_then_fence_complete)
    then show ?thesis
      unfolding fence_here_def using s j by (auto simp: Let_def split: option.splits)
  qed
qed

lemma fence_here_at: "fence_here s = Some g \<Longrightarrow> fenced_at s [] g"
  using fence_here_sound [of s g] unfolding fenced_at_def tag_ok_def by simp

lemma fenced_at_here: "fenced_at s [] g \<Longrightarrow> fence_here s \<noteq> None"
proof -
  assume "fenced_at s [] g"
  then obtain tag ws post where s: "s = ''```'' @ tag @ g @ ws @ ''```'' @ post"
    and t: "list_all is_space tag \<or> (\<exists>w. tag = ''json'' @ w \<and> list_all is_space w)"
    and b: "braced g" and w: "list_all is_space ws"
    unfolding fenced_at_def tag_ok_def by auto
  show ?thesis unfolding s using t b w by (rule fence_here_complete)
qed

lemma fenced_at_Cons: "fenced_at (x # xs) (y # p) g \<longleftrightarrow> y = x \<and> fenced_at xs p g"
  unfolding fenced_at_def by auto

lemma fence_here_Nil [simp]: "fence_here [] = None"
  by (simp add: fence_here_def)

text \<open>The greedy search takes the longest prefix that closes.\<close>

lemma longest_upto_longest:
  "good r \<Longrightarrow> longest_upto good (a @ CHR ''}'' # r) = Some p \<Longrightarrow> length a < length p"
proof (induction a arbitrary: p)
  case Nil
  then show ?case by (auto split: option.splits)
next
  case (Cons x a)
  from longest_upto_complete [where good = good and r = r and a = a, OF Cons.prems(1)]
  obtain p' where
    p': "longest_upto good (a @ CHR ''}'' # r) = Some p'" by auto
  with Cons.prems(2) have "p = x # p'" by simp
  moreover have "length a < length p'" using Cons.IH [OF Cons.prems(1) p'] .
  ultimately show ?case by simp
qed

lemma braced_then_fence_longest:
  assumes "braced_then_fence q = Some g"
      and "q = w @ g' @ ws @ ''```'' @ post"
      and "list_all is_space w" and "braced g'" and "list_all is_space ws"
  shows "length g' \<le> length g"
proof -
  from assms(4) obtain body where g': "g' = CHR ''{'' # body @ [CHR ''}'']"
    by (auto simp: braced_def)
  have d: "dropWhile is_space q = CHR ''{'' # body @ CHR ''}'' # (ws @ ''```'' @ post)"
    using dropWhile_spaces [OF assms(3), of "CHR ''{''"] g' assms(2) by simp
  from assms(1) obtain p where p: "longest_upto closes (body @ CHR ''}'' # (ws @ ''```'' @ post)) = Some p"
    and g: "g = CHR ''{'' # p"
    unfolding braced_then_fence_def d by auto
  have "length body < length p"
    using closes_complete [OF assms(5)] p by (rule longest_upto_longest)
  then show ?thesis using g g' by simp
qed

lemma not_space_j [simp]: "\<not> is_space (CHR ''j'')"
  by (simp add: is_space_def)

lemma spaces_not_json:
  "list_all is_space tag \<Longrightarrow> braced g \<Longrightarrow> \<not> startsWith (tag @ g @ r) ''json''"
  by (cases tag) (auto simp: braced_def)

lemma fence_here_longest:
  assumes "fence_here s = Some g" and "fenced_at s [] g'"
  shows "length g' \<le> length g"
proof -
  from assms(2) obtain tag ws post where s: "s = ''```'' @ tag @ g' @ ws @ ''```'' @ post"
    and t: "tag_ok tag" and b: "braced g'" and w: "list_all is_space ws"
    unfolding fenced_at_def by auto
  let ?r = "tag @ g' @ ws @ ''```'' @ post"
  have st: "startsWith s ''```''" "drop 3 s = ?r" using s by (simp_all add: startsWith_iff)
  from t show ?thesis unfolding tag_ok_def
  proof
    assume sp: "list_all is_space tag"
    then have "\<not> startsWith ?r ''json''" using b by (rule spaces_not_json)
    then have "braced_then_fence ?r = Some g"
      using assms(1) st by (simp add: fence_here_def)
    then show ?thesis using sp b w by (rule braced_then_fence_longest [OF _ refl])
  next
    assume "\<exists>v. tag = ''json'' @ v \<and> list_all is_space v"
    then obtain v where v: "tag = ''json'' @ v" "list_all is_space v" by blast
    let ?r' = "v @ g' @ ws @ ''```'' @ post"
    have j: "startsWith ?r ''json''" "drop 4 ?r = ?r'" using v(1) by (simp_all add: startsWith_iff)
    have "braced_then_fence ?r' \<noteq> None"
      using v(2) b w by (rule braced_then_fence_complete)
    then have "braced_then_fence ?r' = Some g"
      using assms(1) st j by (auto simp: fence_here_def)
    then show ?thesis using v(2) b w by (rule braced_then_fence_longest [OF _ refl])
  qed
qed

lemma jsonBlockMatch_append: "fence_here s \<noteq> None \<Longrightarrow> jsonBlockMatch (pre @ s) \<noteq> None"
proof (induction pre)
  case Nil
  then show ?case by (cases s) (auto split: option.splits)
next
  case (Cons x xs)
  then show ?case by (auto split: option.splits)
qed

lemma jsonBlockMatch_complete: "fenced_at c pre g \<Longrightarrow> jsonBlockMatch c \<noteq> None"
proof -
  assume a: "fenced_at c pre g"
  then obtain s where c: "c = pre @ s" and "fenced_at s [] g"
    unfolding fenced_at_def by auto
  then have "fence_here s \<noteq> None" using fenced_at_here by blast
  then show ?thesis unfolding c by (rule jsonBlockMatch_append)
qed

text \<open>The match is the leftmost occurrence of the pattern and the longest there.\<close>

lemma jsonBlockMatch_greedy:
  "jsonBlockMatch c = Some g \<Longrightarrow>
   \<exists>pre. fenced_at c pre g
     \<and> (\<forall>pre' g'. fenced_at c pre' g' \<longrightarrow>
           length pre < length pre' \<or> (length pre = length pre' \<and> length g' \<le> length g))"
proof (induction c)
  case Nil
  then show ?case by simp
next
  case (Cons x xs)
  show ?case
  proof (cases "fence_here (x # xs)")
    case (Some g0)
    with Cons.prems have h: "fence_here (x # xs) = Some g" by simp
    have "fenced_at (x # xs) [] g" using h by (rule fence_here_at)
    moreover have "length [] < length pre' \<or> (length [] = length pre' \<and> length g' \<le> length g)"
      if "fenced_at (x # xs) pre' g'" for pre' g'
    proof (cases pre')
      case Nil
      with that have "length g' \<le> length g" using fence_here_longest [OF h] by simp
      with Nil show ?thesis by simp
    next
      case (Cons y p)
      then show ?thesis by simp
    qed
    ultimately show ?thesis by blast
  next
    case None
    with Cons.prems have "jsonBlockMatch xs = Some g" by simp
    from Cons.IH [OF this] obtain pre where pre: "fenced_at xs pre g"
      and least: "\<And>pre' g'. fenced_at xs pre' g' \<Longrightarrow>
           length pre < length pre' \<or> (length pre = length pre' \<and> length g' \<le> length g)"
      by blast
    have "fenced_at (x # xs) (x # pre) g" using pre by (simp add: fenced_at_Cons)
    moreover have "length (x # pre) < length pre'
        \<or> (length (x # pre) = length pre' \<and> length g' \<le> length g)"
      if f: "fenced_at (x # xs) pre' g'" for pre' g'
    proof (cases pre')
      case Nil
      with f have "fence_here (x # xs) \<noteq> None" using fenced_at_here by blast
      with None show ?thesis by simp
    next
      case (Cons y p)
      with f have "fenced_at xs p g'" by (simp add: fenced_at_Cons)
      from least [OF this] show ?thesis using Cons by auto
    qed
    ultimately show ?thesis by blast
  qed
qed

text \<open>That span is unique.\<close>

lemma spaces_then_brace:
  "list_all is_space a \<Longrightarrow> list_all is_space b \<Longrightarrow>
   a @ CHR ''{'' # u = b @ CHR ''{'' # v \<Longrightarrow> a = b"
proof (induction a arbitrary: b)
  case Nil
  then show ?case by (cases b) auto
next
  case (Cons x a)
  then show ?case by (cases b) auto
qed

lemma tag_unique:
  assumes "tag_ok t" and "tag_ok t'" and "braced g" and "braced g'"
      and "t @ g @ r = t' @ g' @ r'"
  shows "t = t'"
proof -
  from assms(3,4) obtain u v where g: "g = CHR ''{'' # u" "g' = CHR ''{'' # v"
    by (auto simp: braced_def)
  have eq: "t @ CHR ''{'' # (u @ r) = t' @ CHR ''{'' # (v @ r')"
    using assms(5) g by simp
  consider (ss) "list_all is_space t" "list_all is_space t'"
    | (sj) w' where "list_all is_space t" "t' = ''json'' @ w'"
    | (js) w where "t = ''json'' @ w" "list_all is_space t'"
    | (jj) w w' where "t = ''json'' @ w" "list_all is_space w" "t' = ''json'' @ w'" "list_all is_space w'"
    using assms(1,2) unfolding tag_ok_def by blast
  then show ?thesis
  proof cases
    case ss
    then show ?thesis using eq by (rule spaces_then_brace)
  next
    case sj
    then show ?thesis using eq by (cases t) auto
  next
    case js
    then show ?thesis using eq by (cases t') auto
  next
    case jj
    have "w @ CHR ''{'' # (u @ r) = w' @ CHR ''{'' # (v @ r')"
      using eq jj(1,3) by simp
    with jj(2,4) have "w = w'" by (rule spaces_then_brace)
    with jj(1,3) show ?thesis by simp
  qed
qed

lemma fenced_span_unique:
  assumes "fenced_span c g" and "fenced_span c g'"
  shows "g = g'"
proof -
  from assms(1) obtain pre where a: "fenced_at c pre g"
    and la: "\<And>p h. fenced_at c p h \<Longrightarrow>
        length pre < length p \<or> (length pre = length p \<and> length h \<le> length g)"
    unfolding fenced_span_def by blast
  from assms(2) obtain pre' where b: "fenced_at c pre' g'"
    and lb: "\<And>p h. fenced_at c p h \<Longrightarrow>
        length pre' < length p \<or> (length pre' = length p \<and> length h \<le> length g')"
    unfolding fenced_span_def by blast
  from la [OF b] lb [OF a] have len: "length pre = length pre'" "length g = length g'"
    by auto
  from a obtain tag ws post where ca: "c = pre @ ''```'' @ tag @ g @ ws @ ''```'' @ post"
    and ta: "tag_ok tag" "braced g" unfolding fenced_at_def by blast
  from b obtain tag' ws' post' where cb: "c = pre' @ ''```'' @ tag' @ g' @ ws' @ ''```'' @ post'"
    and tb: "tag_ok tag'" "braced g'" unfolding fenced_at_def by blast
  from ca cb len(1) have r: "tag @ g @ (ws @ ''```'' @ post) = tag' @ g' @ (ws' @ ''```'' @ post')"
    by simp
  have "tag = tag'" using ta(1) tb(1) ta(2) tb(2) r by (rule tag_unique)
  with r have "g @ (ws @ ''```'' @ post) = g' @ (ws' @ ''```'' @ post')" by simp
  with len(2) show ?thesis by simp
qed

lemma jsonBlockMatch_span: "jsonBlockMatch c = Some g \<longleftrightarrow> fenced_span c g"
proof
  assume "jsonBlockMatch c = Some g"
  then show "fenced_span c g"
    unfolding fenced_span_def by (rule jsonBlockMatch_greedy)
next
  assume s: "fenced_span c g"
  then obtain pre where "fenced_at c pre g" unfolding fenced_span_def by blast
  then obtain g0 where m: "jsonBlockMatch c = Some g0"
    using jsonBlockMatch_complete by blast
  then have "fenced_span c g0"
    unfolding fenced_span_def by (rule jsonBlockMatch_greedy)
  with s have "g = g0" by (rule fenced_span_unique)
  with m show "jsonBlockMatch c = Some g" by simp
qed

text \<open>The two replacements isolate the braced object between the outermost braces.\<close>

lemma dropWhile_skip:
  "\<forall>x \<in> set xs. P x \<Longrightarrow> \<not> P y \<Longrightarrow> dropWhile P (xs @ y # ys) = y # ys"
  by (induction xs) auto

lemma strip_leading_cases: "strip_leading c = [] \<or> (\<exists>t. strip_leading c = CHR ''{'' # t)"
proof (cases "strip_leading c")
  case Nil
  then show ?thesis by simp
next
  case (Cons y ys)
  then have "dropWhile (\<lambda>c. c \<noteq> CHR ''{'') c \<noteq> []" by (simp add: strip_leading_def)
  from hd_dropWhile [OF this] Cons have "y = CHR ''{''" by (simp add: strip_leading_def)
  with Cons show ?thesis by simp
qed

lemma strip_trailing_split:
  "\<exists>post. s = strip_trailing s @ post \<and> CHR ''}'' \<notin> set post"
proof
  let ?post = "rev (takeWhile (\<lambda>c. c \<noteq> CHR ''}'') (rev s))"
  have "rev s = takeWhile (\<lambda>c. c \<noteq> CHR ''}'') (rev s) @ dropWhile (\<lambda>c. c \<noteq> CHR ''}'') (rev s)"
    by simp
  then have "s = rev (dropWhile (\<lambda>c. c \<noteq> CHR ''}'') (rev s)) @ ?post"
    by (metis rev_append rev_rev_ident)
  moreover have "CHR ''}'' \<notin> set ?post"
    by (auto dest: set_takeWhileD)
  ultimately show "s = strip_trailing s @ ?post \<and> CHR ''}'' \<notin> set ?post"
    by (simp add: strip_trailing_def)
qed

lemma strip_trailing_last:
  "strip_trailing s \<noteq> [] \<Longrightarrow> \<exists>t. strip_trailing s = t @ [CHR ''}'']"
proof -
  assume n: "strip_trailing s \<noteq> []"
  let ?d = "dropWhile (\<lambda>c. c \<noteq> CHR ''}'') (rev s)"
  from n have "?d \<noteq> []" by (simp add: strip_trailing_def)
  then obtain y ys where d: "?d = y # ys" by (cases ?d) auto
  then have "y = CHR ''}''" using hd_dropWhile [of "\<lambda>c. c \<noteq> CHR ''}''" "rev s"] by auto
  with d show ?thesis by (simp add: strip_trailing_def)
qed

lemma strip_leading_split: "\<exists>pre. c = pre @ strip_leading c \<and> CHR ''{'' \<notin> set pre"
proof
  show "c = takeWhile (\<lambda>c. c \<noteq> CHR ''{'') c @ strip_leading c
        \<and> CHR ''{'' \<notin> set (takeWhile (\<lambda>c. c \<noteq> CHR ''{'') c)"
    by (auto simp: strip_leading_def dest: set_takeWhileD)
qed

lemma stripped_cases:
  "strip_trailing (strip_leading c) = []
   \<or> between_braces c (strip_trailing (strip_leading c))"
proof (cases "strip_trailing (strip_leading c) = []")
  case True
  then show ?thesis by simp
next
  case False
  let ?c1 = "strip_leading c" and ?c2 = "strip_trailing (strip_leading c)"
  obtain pre where pre: "c = pre @ ?c1" "CHR ''{'' \<notin> set pre"
    using strip_leading_split by blast
  obtain post where post: "?c1 = ?c2 @ post" "CHR ''}'' \<notin> set post"
    using strip_trailing_split by blast
  obtain t where t: "?c2 = t @ [CHR ''}'']"
    using strip_trailing_last [OF False] by blast
  from False post(1) have "?c1 \<noteq> []" by auto
  then obtain u where u: "?c1 = CHR ''{'' # u" using strip_leading_cases [of c] by auto
  have "t \<noteq> []" using t u post(1) by (cases t) auto
  then obtain body where "t = CHR ''{'' # body"
    using t u post(1) by (cases t) auto
  with t have "braced ?c2" by (auto simp: braced_def)
  moreover have "c = pre @ ?c2 @ post" using pre(1) post(1) by simp
  ultimately have "between_braces c ?c2"
    unfolding between_braces_def using pre(2) post(2) by blast
  then show ?thesis by simp
qed

lemma between_braces_unique:
  assumes "between_braces c s"
  shows "strip_trailing (strip_leading c) = s"
proof -
  from assms obtain pre post body where c: "c = pre @ s @ post"
    and pre: "CHR ''{'' \<notin> set pre" and post: "CHR ''}'' \<notin> set post"
    and s: "s = CHR ''{'' # body @ [CHR ''}'']"
    unfolding between_braces_def braced_def by blast
  have "strip_leading c = s @ post"
  proof -
    have "\<forall>x \<in> set pre. x \<noteq> CHR ''{''" using pre by auto
    from dropWhile_skip [of pre "\<lambda>c. c \<noteq> CHR ''{''" "CHR ''{''" "body @ [CHR ''}''] @ post", OF this]
    show ?thesis by (simp add: strip_leading_def c s)
  qed
  moreover have "strip_trailing (s @ post) = s"
  proof -
    have r: "rev (s @ post) = rev post @ CHR ''}'' # rev (CHR ''{'' # body)"
      using s by simp
    have "\<forall>x \<in> set (rev post). x \<noteq> CHR ''}''" using post by auto
    from dropWhile_skip [of "rev post" "\<lambda>c. c \<noteq> CHR ''}''" "CHR ''}''" "rev (CHR ''{'' # body)", OF this]
    have "dropWhile (\<lambda>c. c \<noteq> CHR ''}'') (rev (s @ post)) = CHR ''}'' # rev (CHR ''{'' # body)"
      unfolding r by simp
    then have "strip_trailing (s @ post) = rev (CHR ''}'' # rev (CHR ''{'' # body))"
      by (simp only: strip_trailing_def)
    then show ?thesis using s by simp
  qed
  ultimately show ?thesis by simp
qed


lemma braced_starts: "braced s \<Longrightarrow> startsWith s ''{''"
  by (auto simp: braced_def)

lemma stripped_result:
  assumes "jsonBlockMatch (trim text) = None"
  shows "case extract_json text of
           Some s \<Rightarrow>
             s = strip_trailing (strip_leading (trim text)) \<and> between_braces (trim text) s
         | None \<Rightarrow>
             (\<forall>s. \<not> between_braces (trim text) s)
             \<and> strip_trailing (strip_leading (trim text)) = []
             \<and> jsonMatch (strip_trailing (strip_leading (trim text))) = None"
proof (cases "strip_trailing (strip_leading (trim text)) = []")
  case True
  then have e: "extract_json text = None"
    using assms by (simp add: extract_json_def)
  have "\<not> between_braces (trim text) s" for s
  proof
    assume b: "between_braces (trim text) s"
    then have "strip_trailing (strip_leading (trim text)) = s" by (rule between_braces_unique)
    moreover have "s \<noteq> []" using b by (auto simp: between_braces_def braced_def)
    ultimately show False using True by simp
  qed
  then show ?thesis using e True by simp
next
  case False
  let ?c2 = "strip_trailing (strip_leading (trim text))"
  from False have b: "between_braces (trim text) ?c2"
    using stripped_cases [of "trim text"] by blast
  then have "startsWith ?c2 ''{''"
    by (auto simp: between_braces_def intro: braced_starts)
  then have "extract_json text = Some ?c2"
    using assms by (simp add: extract_json_def)
  then show ?thesis using b by simp
qed

text \<open>
  What the extraction computes.  It works on the trimmed text, in this order.  When the
  fenced pattern occurs in the text, the extraction yields the span of the leftmost
  occurrence that is longest there, from the opening brace after the first fence to
  the last closing brace that white space and a fence follow; there is exactly one such
  span, and it is what the first regular expression matches.  It is the contents of a
  fenced code block when the reply has one block, and reaches across blocks when it has
  several.  When the pattern does not occur, the text is stripped up to its first opening
  brace and after its last closing brace: when that leaves a text beginning with an
  opening brace, it is the braced object between the outermost braces, and the
  extraction yields it.  Otherwise the third pattern is matched against what is left,
  which is the empty text; it finds nothing, no braced object lies between outermost
  braces, and the extraction fails.
\<close>

lemma extraction_result:
  "(fenced_span (trim text) g \<longrightarrow> extract_json text = Some g)
   \<and> (fenced_at (trim text) pre b \<longrightarrow> (\<exists>g. fenced_span (trim text) g))
   \<and> (fenced_span (trim text) g \<and> fenced_span (trim text) g' \<longrightarrow> g = g')
   \<and> (jsonBlockMatch (trim text) = Some g \<longleftrightarrow> fenced_span (trim text) g)
   \<and> ((\<forall>pre b. \<not> fenced_at (trim text) pre b) \<longrightarrow>
        (case extract_json text of
           Some s \<Rightarrow>
             s = strip_trailing (strip_leading (trim text)) \<and> between_braces (trim text) s
         | None \<Rightarrow>
             (\<forall>s. \<not> between_braces (trim text) s)
             \<and> strip_trailing (strip_leading (trim text)) = []
             \<and> jsonMatch (strip_trailing (strip_leading (trim text))) = None))"
proof -
  have used: "extract_json text = Some g" if "fenced_span (trim text) g"
  proof -
    from that have "jsonBlockMatch (trim text) = Some g" by (simp add: jsonBlockMatch_span)
    then show ?thesis by (simp add: extract_json_def)
  qed
  have exists: "\<exists>g. fenced_span (trim text) g" if "fenced_at (trim text) pre b"
  proof -
    from that obtain g0 where "jsonBlockMatch (trim text) = Some g0"
      using jsonBlockMatch_complete by blast
    then show ?thesis using jsonBlockMatch_span by blast
  qed
  have unique: "g = g'" if "fenced_span (trim text) g" "fenced_span (trim text) g'"
    using that by (rule fenced_span_unique)
  have none: "case extract_json text of
           Some s \<Rightarrow>
             s = strip_trailing (strip_leading (trim text)) \<and> between_braces (trim text) s
         | None \<Rightarrow>
             (\<forall>s. \<not> between_braces (trim text) s)
             \<and> strip_trailing (strip_leading (trim text)) = []
             \<and> jsonMatch (strip_trailing (strip_leading (trim text))) = None"
    if n: "\<forall>pre b. \<not> fenced_at (trim text) pre b"
  proof -
    have "jsonBlockMatch (trim text) = None"
    proof (cases "jsonBlockMatch (trim text)")
      case None
      then show ?thesis .
    next
      case (Some g0)
      then have "fenced_span (trim text) g0" by (simp add: jsonBlockMatch_span)
      then show ?thesis using n unfolding fenced_span_def by blast
    qed
    then show ?thesis by (rule stripped_result)
  qed
  show ?thesis
    using used exists unique none jsonBlockMatch_span [of "trim text" g] by blast
qed

lemma extraction_result_example:
  "fenced_span (trim ''Sure: ```json {} ``` done.'') ''{}''
   \<and> extract_json ''Sure: ```json {} ``` done.'' = Some ''{}''
   \<and> (\<forall>pre b. \<not> fenced_at (trim ''Here it is: {} '') pre b)
   \<and> extract_json ''Here it is: {} '' = Some ''{}''
   \<and> between_braces (trim ''Here it is: {} '') ''{}''"
proof -
  let ?a = "''Sure: ```json {} ``` done.''" and ?b = "''Here it is: {} ''"
  have m: "jsonBlockMatch (trim ?a) = Some ''{}''" by code_simp
  have s: "fenced_span (trim ?a) ''{}''"
    using extraction_result [of ?a "''{}''"] m by blast
  have e: "extract_json ?a = Some ''{}''"
    using extraction_result [of ?a "''{}''"] s by blast
  have n: "jsonBlockMatch (trim ?b) = None" by code_simp
  have f: "\<not> fenced_at (trim ?b) pre b" for pre b
  proof
    assume "fenced_at (trim ?b) pre b"
    then obtain g where "fenced_span (trim ?b) g"
      using extraction_result [of ?b _ pre b] by blast
    then have "jsonBlockMatch (trim ?b) = Some g"
      using extraction_result [of ?b g] by blast
    with n show False by simp
  qed
  have x: "extract_json ?b = Some ''{}''" by code_simp
  have c: "case extract_json ?b of
           Some s \<Rightarrow> s = strip_trailing (strip_leading (trim ?b)) \<and> between_braces (trim ?b) s
         | None \<Rightarrow> (\<forall>s. \<not> between_braces (trim ?b) s)
             \<and> strip_trailing (strip_leading (trim ?b)) = []
             \<and> jsonMatch (strip_trailing (strip_leading (trim ?b))) = None"
    using extraction_result [of ?b] f by blast
  have y: "between_braces (trim ?b) ''{}''"
    by (rule c [unfolded x option.case, THEN conjunct2])
  from s e f x y show ?thesis by blast
qed

text \<open>
  C5 fails on a reply with two fenced code blocks, each holding the object \<open>{}\<close>.  A
  fenced code block with a braced object is present, and its contents parse; but the
  first pattern is greedy, and what the extraction cuts out runs from the opening brace
  of the first block to the closing brace of the second, with both inner fences in it.
  That is the contents of no fenced code block and no JSON text, so parsing fails and the
  call fails with the parse error, while the same object in a single block is extracted
  and parsed.
\<close>

theorem two_blocks_rejected:
  "fenced_block (trim two_blocks) ''{}''
   \<and> json_parse sample_runtime ''{}'' = Some []
   \<and> extract_json two_blocks = Some ''{} ``` and ```json {}''
   \<and> js_includes ''{} ``` and ```json {}'' ''```''
   \<and> \<not> fenced_block (trim two_blocks) ''{} ``` and ```json {}''
   \<and> parse_reply sample_runtime two_blocks = None
   \<and> reviewCode sample_runtime sample_config (always (Replied two_blocks)) ''x = 1'' ''python''
       = Inl (''The Reaper could not be summoned: '' @ parse_failure)
   \<and> parse_reply sample_runtime ''```json {} ```'' = Some []"
proof -
  have t: "trim two_blocks = ''```'' @ ''json '' @ ''{}'' @ '' '' @ ''```'' @ '' and ```json {} ```''"
    by code_simp
  have g: "tag_ok ''json ''"
    unfolding tag_ok_def by (rule disjI2, rule exI [of _ "'' ''"]) (simp add: is_space_def)
  have h: "braced ''{}''"
    unfolding braced_def by (rule exI [of _ "[]"]) simp
  have i: "list_all is_space '' ''" by (simp add: is_space_def)
  have "fenced_at (trim two_blocks) [] ''{}''"
    unfolding fenced_at_def t
    apply (rule exI [of _ "''json ''"])
    apply (rule exI [of _ "'' ''"])
    apply (rule exI [of _ "'' and ```json {} ```''"])
    apply (intro conjI)
       apply simp
      apply (rule g)
     apply (rule h)
    apply (rule i)
    done
  moreover have "\<not> js_includes ''{}'' ''```''" by code_simp
  ultimately have a: "fenced_block (trim two_blocks) ''{}''"
    unfolding fenced_block_def by blast
  have j: "json_parse sample_runtime ''{}'' = Some []" by (simp add: sample_runtime_def)
  have b: "extract_json two_blocks = Some ''{} ``` and ```json {}''" by code_simp
  have c: "js_includes ''{} ``` and ```json {}'' ''```''" by code_simp
  then have d: "\<not> fenced_block (trim two_blocks) ''{} ``` and ```json {}''"
    unfolding fenced_block_def by simp
  have e: "parse_reply sample_runtime two_blocks = None" by code_simp
  have f: "reviewCode sample_runtime sample_config (always (Replied two_blocks)) ''x = 1'' ''python''
       = Inl (''The Reaper could not be summoned: '' @ parse_failure)"
    by code_simp
  have k: "parse_reply sample_runtime ''```json {} ```'' = Some []" by code_simp
  from a j b c d e f k show ?thesis by blast
qed

end
